theory Spec2Isabelle
  imports Complex_Main "HOL-Library.Char_ord" "HOL-Library.List_Lexorder" "HOL-Library.Sublist"
begin

section \<open>Library functions written out\<close>

text \<open>
  Small functions of the Go standard library that the client calls and whose result is
  fixed by their documentation: \<^verbatim>\<open>strconv.FormatInt(v, 10)\<close>,
  \<^verbatim>\<open>strings.Contains\<close> and \<^verbatim>\<open>strings.TrimRight\<close> with a one-character cutset.
\<close>

definition digitChar :: "nat \<Rightarrow> char" where
  "digitChar n = ''0123456789'' ! n"

fun digits :: "nat \<Rightarrow> string" where
  "digits n = (if n < 10 then [digitChar n] else digits (n div 10) @ [digitChar (n mod 10)])"

definition FormatInt :: "int \<Rightarrow> string" where
  "FormatInt i = (if i < 0 then ''-'' @ digits (nat (- i)) else digits (nat i))"

fun Contains :: "string \<Rightarrow> string \<Rightarrow> bool" where
  "Contains [] substr = (substr = [])"
| "Contains (c # s) substr = (prefix substr (c # s) \<or> Contains s substr)"

definition TrimRight :: "string \<Rightarrow> char \<Rightarrow> string" where
  "TrimRight s c = rev (dropWhile (\<lambda>x. x = c) (rev s))"

section \<open>Errors\<close>

text \<open>
  The error values of the package (\<^verbatim>\<open>client.go\<close> and the image file). The three
  package-level variables of each file are values of their own: Go compares them by
  identity, so \<^verbatim>\<open>errors.New\<close> with the same text elsewhere is a different error
  (\<open>ErrorString\<close>). \<open>APIError\<close> is the struct \<^verbatim>\<open>Error{Status, Message}\<close>.
  \<open>Foreign\<close> is an error made by a library (transport, reader, archive), carrying the
  text its \<^verbatim>\<open>Error()\<close> method gives. \<open>RuntimePanic\<close> is not an error that a call
  returns: the call ends in a run-time panic with the given text.
\<close>

datatype error =
    ErrInvalidEndpoint
  | ErrConnectionRefused
  | ErrMissingOutputStream
  | ErrMissingContext
  | ErrMultipleContexts
  | APIError int string
  | ErrorString string
  | Foreign string
  | RuntimePanic string

definition newError :: "int \<Rightarrow> string \<Rightarrow> error" where
  "newError status body = APIError status body"

text \<open>The text of an error, as its \<^verbatim>\<open>Error()\<close> method gives it.\<close>

fun errorText :: "error \<Rightarrow> string" where
  "errorText ErrInvalidEndpoint = ''endpoint is not valid''"
| "errorText ErrConnectionRefused = ''connectin is refused''"
| "errorText ErrMissingOutputStream = ''output stream is missing''"
| "errorText ErrMissingContext = ''context is missing''"
| "errorText ErrMultipleContexts = ''multiple contexts are presented''"
| "errorText (APIError status message) = ''API error ('' @ FormatInt status @ ''): '' @ message"
| "errorText (ErrorString s) = s"
| "errorText (Foreign s) = s"
| "errorText (RuntimePanic s) = s"

section \<open>Readers, writers and the world\<close>

text \<open>
  An \<^verbatim>\<open>io.Reader\<close> is the bytes it delivers and how it ends: with \<^verbatim>\<open>io.EOF\<close>
  (\<open>failure = None\<close>) or, after those bytes, with a read error of the library that
  has the given text.
\<close>

record reader =
  content :: string
  failure :: "string option"

text \<open>
  An \<^verbatim>\<open>io.Writer\<close> is either \<^verbatim>\<open>ioutil.Discard\<close> or a sink of the caller, named by
  a number; two parameters naming the same sink alias it. A sink accepts every write
  (as a \<^verbatim>\<open>bytes.Buffer\<close> does). A nil interface value is \<open>None\<close> of
  \<open>writer option\<close>.
\<close>

datatype writer = Discard | Sink nat

text \<open>
  An HTTP request as \<^verbatim>\<open>stream\<close> builds it, and the two network operations it performs:
  dialling a socket and sending a request.
\<close>

record request =
  Method :: string
  Target :: string
  ReqHeader :: "string \<rightharpoonup> string"
  ReqBody :: "reader option"

datatype netop = Dialed string string | Sent request

text \<open>
  The world the client acts on: what every sink has received so far, the network
  operations performed (oldest first), and the lines given to the package logger.
\<close>

record world =
  written :: "nat \<Rightarrow> string"
  netlog :: "netop list"
  logged :: "string list"

fun Fprint :: "writer \<Rightarrow> string \<Rightarrow> world \<Rightarrow> world" where
  "Fprint Discard s w = w"
| "Fprint (Sink k) s w = w\<lparr>written := (written w)(k := written w k @ s)\<rparr>"

text \<open>
  \<^verbatim>\<open>ioutil.ReadAll\<close> gives the bytes, or the read error. \<^verbatim>\<open>io.Copy\<close> writes the bytes
  delivered and returns the read error, if any.
\<close>

definition ReadAll :: "reader \<Rightarrow> error + string" where
  "ReadAll r = (case failure r of None \<Rightarrow> Inr (content r) | Some e \<Rightarrow> Inl (Foreign e))"

definition Copy :: "writer \<Rightarrow> reader \<Rightarrow> world \<Rightarrow> error option \<times> world" where
  "Copy dst src w = (map_option Foreign (failure src), Fprint dst (content src) w)"

section \<open>Progress events\<close>

record jsonMessage =
  Status :: string
  Progress :: string
  Error :: string
  Stream :: string

text \<open>
  One call of \<^verbatim>\<open>dec.Decode(&m)\<close> on a fresh \<open>m\<close> gives a message or fails with an
  error of the library that has the given text; the end of the list is \<^verbatim>\<open>io.EOF\<close>.
\<close>

datatype decoded = Message jsonMessage | Malformed string

definition CR :: char where "CR = CHR 0x0D"
definition LF :: char where "LF = CHR 0x0A"

text \<open>The body of the decoding loop up to the error test (lines 234 to 240).\<close>

definition stream_event :: "jsonMessage \<Rightarrow> writer \<Rightarrow> world \<Rightarrow> error + world" where
  "stream_event m stdout w =
     (if Stream m \<noteq> '''' then Inr (Fprint stdout (Stream m) w)
      else if Progress m \<noteq> '''' then
        Inr (Fprint stdout (Status m @ '' '' @ Progress m @ [CR]) w)
      else if Error m \<noteq> '''' then Inl (ErrorString (Error m))
      else Inr w)"

text \<open>The loop of lines 227 to 244, over the results of the successive decodes.\<close>

fun stream_events :: "decoded list \<Rightarrow> writer \<Rightarrow> world \<Rightarrow> error option \<times> world" where
  "stream_events [] stdout w = (None, w)"
| "stream_events (Malformed e # rest) stdout w = (Some (Foreign e), w)"
| "stream_events (Message m # rest) stdout w =
     (case stream_event m stdout w of
        Inl e \<Rightarrow> (Some e, w)
      | Inr w1 \<Rightarrow>
          stream_events rest stdout
            (if Status m \<noteq> '''' then Fprint stdout (Status m @ [LF]) w1 else w1))"

section \<open>URLs, responses and channels\<close>

text \<open>The fields of \<^verbatim>\<open>url.URL\<close> that the client reads or writes.\<close>

record URL =
  Scheme :: string
  Host :: string
  Path :: string
  RawQuery :: string

text \<open>
  The error of \<^verbatim>\<open>net.SplitHostPort\<close>: a \<^verbatim>\<open>*net.AddrError\<close> with its \<^verbatim>\<open>Err\<close>
  text, or an error of another type.
\<close>

datatype neterror = AddrError string | OtherError string

record response =
  StatusCode :: int
  Header :: "string \<rightharpoonup> string list"
  Body :: reader

datatype channel = ToStdout | ToStderr

section \<open>Authentication values\<close>

record AuthConfiguration =
  Username :: string
  Password :: string
  Email :: string
  ServerAddress :: string

record AuthConfigurations =
  Configs :: "string \<rightharpoonup> AuthConfiguration"

text \<open>
  A value handed to \<^verbatim>\<open>json.Marshal\<close> as an \<^verbatim>\<open>interface{}\<close>: one of the two
  authentication structs, or a value of any other type, named by a number. Marshalling
  gives the bytes, or an error of the library with the given text.
\<close>

datatype gvalue = AuthConf AuthConfiguration | AuthConfs AuthConfigurations | Opaque nat

datatype marshalled = Marshalled string | MarshalError string

section \<open>The environment\<close>

text \<open>
  What the client calls and the sources do not hold, taken as parameters:
  \<^item> \<open>urlParse\<close>: \<^verbatim>\<open>url.Parse\<close> (\<open>None\<close> when it fails);
  \<^item> \<open>SplitHostPort\<close>: \<^verbatim>\<open>net.SplitHostPort\<close>, giving host and port;
  \<^item> \<open>MustInt\<close>: \<^verbatim>\<open>com.StrTo(s).MustInt()\<close>;
  \<^item> \<open>URLString\<close>: the \<^verbatim>\<open>String\<close> method of \<^verbatim>\<open>url.URL\<close>;
  \<^item> \<open>NewRequest\<close>: the error of \<^verbatim>\<open>http.NewRequest\<close> for a method and a URL, if any;
  \<^item> \<open>Dial\<close>: the error of \<^verbatim>\<open>net.Dial\<close> for a protocol and an address, if any;
  \<^item> \<open>ConnDo\<close>: the response that \<^verbatim>\<open>clientconn.Do\<close> returns on the connection dialled
    to an address, \<open>None\<close> when it is nil; the error it returns beside it is assigned to
    the \<open>err\<close> that line 195 declares inside the block, which no test reads;
  \<^item> \<open>CanonicalKey\<close>: the canonical form that \<^verbatim>\<open>Header.Set\<close> gives a key;
  \<^item> \<open>rangeOrder\<close>: the keys of a header map in the order in which the loop of line
    182 visits them (the language leaves the order open);
  \<^item> \<open>HTTPDo\<close>: \<^verbatim>\<open>c.HTTPClient.Do\<close>;
  \<^item> \<open>Decode\<close>: the results of the successive \<^verbatim>\<open>dec.Decode\<close> calls of a
    \<^verbatim>\<open>json.Decoder\<close> on a reader, up to \<^verbatim>\<open>io.EOF\<close> or the first error;
  \<^item> \<open>stdCopy\<close>: the package's demultiplexer, as the writes it makes in order, each to
    one of its two writers, and the error it returns;
  \<^item> \<open>createTarStream\<close>: the package's archive builder, for a directory;
  \<^item> \<open>ToLower\<close>: \<^verbatim>\<open>strings.ToLower\<close>;
  \<^item> \<open>FormatFloat\<close>: \<^verbatim>\<open>strconv.FormatFloat(x, 'f', -1, 64)\<close>;
  \<^item> \<open>MarshalAuth\<close>, \<open>MarshalAuths\<close>: \<^verbatim>\<open>json.Marshal\<close> on the two authentication
    structs, which hold only strings and a map of such structs, so that it returns no
    error; \<open>MarshalOpaque\<close>: \<^verbatim>\<open>json.Marshal\<close> on any other value;
  \<^item> \<open>EncodeToString\<close>: \<^verbatim>\<open>base64.URLEncoding.EncodeToString\<close>.
\<close>

record env =
  urlParse :: "string \<Rightarrow> URL option"
  SplitHostPort :: "string \<Rightarrow> neterror + string \<times> string"
  MustInt :: "string \<Rightarrow> int"
  URLString :: "URL \<Rightarrow> string"
  NewRequest :: "string \<Rightarrow> string \<Rightarrow> error option"
  Dial :: "string \<Rightarrow> string \<Rightarrow> error option"
  ConnDo :: "string \<Rightarrow> request \<Rightarrow> response option"
  CanonicalKey :: "string \<Rightarrow> string"
  rangeOrder :: "(string \<rightharpoonup> string) \<Rightarrow> string list"
  HTTPDo :: "request \<Rightarrow> error + response"
  Decode :: "reader \<Rightarrow> decoded list"
  stdCopy :: "reader \<Rightarrow> (channel \<times> string) list \<times> error option"
  createTarStream :: "string \<Rightarrow> error + reader"
  ToLower :: "string \<Rightarrow> string"
  FormatFloat :: "real \<Rightarrow> string"
  MarshalAuth :: "AuthConfiguration \<Rightarrow> string"
  MarshalAuths :: "AuthConfigurations \<Rightarrow> string"
  MarshalOpaque :: "nat \<Rightarrow> marshalled"
  EncodeToString :: "string \<Rightarrow> string"

section \<open>Endpoint resolution\<close>

text \<open>
  The error branch of lines 47 to 54 and of lines 66 to 73: a missing port is tolerated,
  any other failure is an invalid endpoint.
\<close>

definition splitFailed :: "neterror \<Rightarrow> URL \<Rightarrow> error + URL" where
  "splitFailed err u =
     (case err of
        AddrError e \<Rightarrow> if e = ''missing port in address'' then Inr u else Inl ErrInvalidEndpoint
      | OtherError _ \<Rightarrow> Inl ErrInvalidEndpoint)"

text \<open>Lines 61 to 81: the scheme test and the port range.\<close>

definition checkEndpoint :: "env \<Rightarrow> URL \<Rightarrow> error + URL" where
  "checkEndpoint E u =
     (if Scheme u \<noteq> ''http'' \<and> Scheme u \<noteq> ''https'' \<and> Scheme u \<noteq> ''unix'' then Inl ErrInvalidEndpoint
      else if Scheme u \<noteq> ''unix'' then
        (case SplitHostPort E (Host u) of
           Inl err \<Rightarrow> splitFailed err u
         | Inr (host, port) \<Rightarrow>
             (let number = MustInt E port
              in if number > 0 \<and> number < 65536 then Inr u else Inl ErrInvalidEndpoint))
      else Inr u)"

definition parseEndpoint :: "env \<Rightarrow> string \<Rightarrow> error + URL" where
  "parseEndpoint E endpoint =
     (case urlParse E endpoint of
        None \<Rightarrow> Inl ErrInvalidEndpoint
      | Some u \<Rightarrow>
          if Scheme u = ''tcp'' then
            (case SplitHostPort E (Host u) of
               Inl err \<Rightarrow> splitFailed err u
             | Inr (host, port) \<Rightarrow>
                 checkEndpoint E
                   (if MustInt E port = 2376 then u\<lparr>Scheme := ''https''\<rparr>
                    else u\<lparr>Scheme := ''http''\<rparr>))
          else checkEndpoint E u)"

section \<open>The client and its stream operation\<close>

record Client =
  endpoint :: string
  endpointURL :: URL

definition NewClient :: "env \<Rightarrow> string \<Rightarrow> error + Client" where
  "NewClient E ep =
     (case parseEndpoint E ep of
        Inl err \<Rightarrow> Inl err
      | Inr u \<Rightarrow> Inr \<lparr>endpoint = ep, endpointURL = u\<rparr>)"

definition getURL :: "env \<Rightarrow> Client \<Rightarrow> string \<Rightarrow> string" where
  "getURL E c path =
     (let urlStr = TrimRight (URLString E (endpointURL c)) CHR ''/''
      in (if Scheme (endpointURL c) = ''unix'' then '''' else urlStr) @ path)"

text \<open>\<^verbatim>\<open>resp.Header.Get\<close>: the first value stored under the key, or the empty string.\<close>

definition HeaderGet :: "(string \<rightharpoonup> string list) \<Rightarrow> string \<Rightarrow> string" where
  "HeaderGet h key = (case h key of Some (v # _) \<Rightarrow> v | _ \<Rightarrow> '''')"

text \<open>The writes of the demultiplexer, applied to the two writers it was given.\<close>

definition demux :: "(channel \<times> string) list \<times> error option \<Rightarrow> writer \<Rightarrow> writer \<Rightarrow> world \<Rightarrow> error option \<times> world" where
  "demux r stdout stderr w =
     (snd r,
      foldl (\<lambda>w' (ch, s). Fprint (case ch of ToStdout \<Rightarrow> stdout | ToStderr \<Rightarrow> stderr) s w') w (fst r))"

text \<open>Lines 219 to 253: the branch on the content type of the response.\<close>

definition stream_decode :: "env \<Rightarrow> response \<Rightarrow> bool \<Rightarrow> bool \<Rightarrow> writer \<Rightarrow> writer \<Rightarrow> world \<Rightarrow> error option \<times> world" where
  "stream_decode E resp setRawTerminal rawJSONStream stdout stderr w =
     (if HeaderGet (Header resp) ''Content-Type'' = ''application/json'' then
        if rawJSONStream then Copy stdout (Body resp) w
        else stream_events (Decode E (Body resp)) stdout w
      else if setRawTerminal then Copy stdout (Body resp) w
      else demux (stdCopy E (Body resp)) stdout stderr w)"

text \<open>Lines 205 to 253: what \<^verbatim>\<open>stream\<close> does with the result of the round trip.\<close>

definition stream_response :: "env \<Rightarrow> error + response \<Rightarrow> bool \<Rightarrow> bool \<Rightarrow> writer \<Rightarrow> writer \<Rightarrow> world \<Rightarrow> error option \<times> world" where
  "stream_response E result setRawTerminal rawJSONStream stdout stderr w =
     (case result of
        Inl err \<Rightarrow>
          if Contains (errorText err) ''connection refused'' then (Some ErrConnectionRefused, w)
          else (Some err, w)
      | Inr resp \<Rightarrow>
          if StatusCode resp < 200 \<or> StatusCode resp \<ge> 400 then
            (case ReadAll (Body resp) of
               Inl err \<Rightarrow> (Some err, w)
             | Inr body \<Rightarrow> (Some (newError (StatusCode resp) body), w))
          else stream_decode E resp setRawTerminal rawJSONStream stdout stderr w)"

definition USER_AGENT :: string where
  "USER_AGENT = ''dockercn/rudder''"

text \<open>
  Lines 178 to 184: the two headers of the client, then the headers of the caller, each
  set under the canonical form of its key, in the order in which the loop visits them.
\<close>

definition requestHeader :: "env \<Rightarrow> string \<Rightarrow> (string \<rightharpoonup> string) \<Rightarrow> (string \<rightharpoonup> string)" where
  "requestHeader E method headers =
     foldl (\<lambda>h key. case headers key of None \<Rightarrow> h | Some val \<Rightarrow> h(CanonicalKey E key \<mapsto> val))
       (if method = ''POST'' then [''User-Agent'' \<mapsto> USER_AGENT, ''Content-Type'' \<mapsto> ''plain/text'']
        else [''User-Agent'' \<mapsto> USER_AGENT])
       (rangeOrder E headers)"

text \<open>
  Lines 169 to 211: the request is built and sent. The outcome is an error returned as it
  is (\<open>Failed\<close>: from \<^verbatim>\<open>http.NewRequest\<close> or \<^verbatim>\<open>net.Dial\<close>), or the response and the error
  that the test of line 205 sees (\<open>Answered\<close>), or a panic (\<open>Panicked\<close>). On a \<open>unix\<close>
  endpoint the error of \<^verbatim>\<open>clientconn.Do\<close> goes to the \<open>err\<close> of the inner block, so the
  test of line 205 sees nil: a response is used as it is, and a nil response makes line
  211 panic.
\<close>

datatype sent = Failed error | Answered "error + response" | Panicked

definition stream_send :: "env \<Rightarrow> Client \<Rightarrow> string \<Rightarrow> string \<Rightarrow> (string \<rightharpoonup> string) \<Rightarrow> reader option \<Rightarrow> world \<Rightarrow> sent \<times> world" where
  "stream_send E c method path headers input w =
     (let w0 = w\<lparr>logged := logged w @ [method @ '' '' @ path]\<rparr>;
          body = (if (method = ''POST'' \<or> method = ''PUT'') \<and> input = None
                  then Some \<lparr>content = '''', failure = None\<rparr> else input);
          target = getURL E c path
      in case NewRequest E method target of
           Some err \<Rightarrow> (Failed err, w0)
         | None \<Rightarrow>
             (let req = \<lparr>Method = method, Target = target,
                         ReqHeader = requestHeader E method headers, ReqBody = body\<rparr>;
                  protocol = Scheme (endpointURL c);
                  address = Path (endpointURL c)
              in if protocol = ''unix'' then
                   (case Dial E protocol address of
                      Some err \<Rightarrow> (Failed err, w0\<lparr>netlog := netlog w0 @ [Dialed protocol address]\<rparr>)
                    | None \<Rightarrow>
                        (case ConnDo E address req of
                           None \<Rightarrow> Panicked
                         | Some resp \<Rightarrow> Answered (Inr resp),
                         w0\<lparr>netlog := netlog w0 @ [Dialed protocol address, Sent req]\<rparr>))
                 else (Answered (HTTPDo E req), w0\<lparr>netlog := netlog w0 @ [Sent req]\<rparr>)))"

text \<open>
  The whole of \<^verbatim>\<open>stream\<close>. A nil writer is replaced by \<^verbatim>\<open>ioutil.Discard\<close> (lines 188
  to 193) before anything is written.
\<close>

definition stream :: "env \<Rightarrow> Client \<Rightarrow> string \<Rightarrow> string \<Rightarrow> bool \<Rightarrow> bool \<Rightarrow> (string \<rightharpoonup> string) \<Rightarrow> reader option \<Rightarrow> writer option \<Rightarrow> writer option \<Rightarrow> world \<Rightarrow> error option \<times> world" where
  "stream E c method path setRawTerminal rawJSONStream headers input stdout stderr w =
     (case stream_send E c method path headers input w of
        (Failed err, w1) \<Rightarrow> (Some err, w1)
      | (Answered result, w1) \<Rightarrow>
          stream_response E result setRawTerminal rawJSONStream
            (case stdout of None \<Rightarrow> Discard | Some x \<Rightarrow> x)
            (case stderr of None \<Rightarrow> Discard | Some x \<Rightarrow> x) w1
      | (Panicked, w1) \<Rightarrow>
          (Some (RuntimePanic ''invalid memory address or nil pointer dereference''), w1))"

section \<open>Query strings\<close>

text \<open>
  \<^verbatim>\<open>url.Values\<close> is a map from keys to lists of values; here a list of pairs with distinct
  keys. \<^verbatim>\<open>Add\<close> appends a value to the list of its key. \<^verbatim>\<open>Encode\<close> goes through the keys
  in sorted order (strings are compared bytewise) and writes each value as
  \<^verbatim>\<open>QueryEscape(key) + "=" + QueryEscape(value)\<close>, with \<^verbatim>\<open>&\<close> before it when the buffer is
  not empty. \<^verbatim>\<open>QueryEscape\<close> keeps letters, digits and the four marks, turns a space into
  \<^verbatim>\<open>+\<close> and writes every other byte as \<^verbatim>\<open>%\<close> and two upper-case hexadecimal digits.
\<close>

type_synonym Values = "(string \<times> string list) list"

fun Add :: "string \<Rightarrow> string \<Rightarrow> Values \<Rightarrow> Values" where
  "Add key v [] = [(key, [v])]"
| "Add key v ((k, vs) # rest) =
     (if k = key then (k, vs @ [v]) # rest else (k, vs) # Add key v rest)"

definition shouldEscape :: "char \<Rightarrow> bool" where
  "shouldEscape c =
     (\<not> ((CHR ''A'' \<le> c \<and> c \<le> CHR ''Z'') \<or> (CHR ''a'' \<le> c \<and> c \<le> CHR ''z'')
          \<or> (CHR ''0'' \<le> c \<and> c \<le> CHR ''9'')
          \<or> c = CHR ''-'' \<or> c = CHR ''_'' \<or> c = CHR ''.'' \<or> c = CHR ''~''))"

definition hexDigit :: "nat \<Rightarrow> char" where
  "hexDigit n = ''0123456789ABCDEF'' ! n"

definition escapeByte :: "char \<Rightarrow> string" where
  "escapeByte c =
     (if c = CHR '' '' then ''+''
      else if shouldEscape c
      then [CHR ''%'', hexDigit (of_char c div 16), hexDigit (of_char c mod 16)]
      else [c])"

definition QueryEscape :: "string \<Rightarrow> string" where
  "QueryEscape s = concat (map escapeByte s)"

definition EncodeParts :: "Values \<Rightarrow> string list" where
  "EncodeParts v =
     concat (map (\<lambda>(k, vs). map (\<lambda>x. QueryEscape k @ ''='' @ QueryEscape x) vs) (sort_key fst v))"

definition writePart :: "string \<Rightarrow> string \<Rightarrow> string" where
  "writePart buf part = (if buf \<noteq> '''' then buf @ ''&'' @ part else part)"

definition Encode :: "Values \<Rightarrow> string" where
  "Encode v = foldl writePart '''' (EncodeParts v)"

text \<open>
  The pieces of a query string between its \<^verbatim>\<open>&\<close> separators: what a reader of the query
  string sees as its parameters. It is used to say what a field contributes.
\<close>

fun queryParts :: "string \<Rightarrow> string list" where
  "queryParts [] = [[]]"
| "queryParts (c # cs) =
     (if c = CHR ''&'' then [] # queryParts cs
      else (case queryParts cs of
              p # ps \<Rightarrow> (c # p) # ps
            | [] \<Rightarrow> [[c]]))"

text \<open>
  What \<^verbatim>\<open>reflect\<close> shows of a struct field: its name, its package path (empty for an
  exported field), its \<^verbatim>\<open>qs\<close> tag (empty when there is none) and its value by kind. The
  signed integer kinds are \<open>VInt\<close>; a pointer is nil or points to a value; a map has a
  number of keys; the kinds that \<^verbatim>\<open>queryString\<close> has no case for are \<open>VUint\<close> (the unsigned
  integer kinds) and \<open>VOther\<close>.
\<close>

datatype rvalue =
    VBool bool
  | VInt int
  | VUint nat
  | VFloat real
  | VString string
  | VPtr "gvalue option"
  | VMap nat gvalue
  | VOther

record field =
  FieldName :: string
  PkgPath :: string
  qs :: string
  fvalue :: rvalue

text \<open>
  The argument of \<^verbatim>\<open>queryString\<close>: nil, a struct, a pointer to a struct, or anything else
  (a nil pointer and a pointer to something else included).
\<close>

datatype options = NoOptions | Struct "field list" | PtrToStruct "field list" | NotStruct

definition jsonMarshal :: "env \<Rightarrow> gvalue \<Rightarrow> marshalled" where
  "jsonMarshal E v =
     (case v of
        AuthConf a \<Rightarrow> Marshalled (MarshalAuth E a)
      | AuthConfs a \<Rightarrow> Marshalled (MarshalAuths E a)
      | Opaque n \<Rightarrow> MarshalOpaque E n)"

definition fieldKey :: "env \<Rightarrow> field \<Rightarrow> string" where
  "fieldKey E f = (if qs f = '''' then ToLower E (FieldName f) else qs f)"

text \<open>One turn of the loop of \<^verbatim>\<open>queryString\<close> (lines 269 to 309).\<close>

definition addField :: "env \<Rightarrow> Values \<Rightarrow> field \<Rightarrow> Values" where
  "addField E items f =
     (if PkgPath f \<noteq> '''' then items
      else if qs f = ''-'' then items
      else
        (let key = fieldKey E f
         in case fvalue f of
              VBool b \<Rightarrow> if b then Add key ''1'' items else items
            | VInt i \<Rightarrow> if i > 0 then Add key (FormatInt i) items else items
            | VFloat x \<Rightarrow> if x > 0 then Add key (FormatFloat E x) items else items
            | VString s \<Rightarrow> if s \<noteq> '''' then Add key s items else items
            | VPtr p \<Rightarrow>
                (case p of
                   None \<Rightarrow> items
                 | Some v \<Rightarrow>
                     (case jsonMarshal E v of
                        Marshalled b \<Rightarrow> Add key b items
                      | MarshalError _ \<Rightarrow> items))
            | VMap n v \<Rightarrow>
                if n > 0 then
                  (case jsonMarshal E v of
                     Marshalled b \<Rightarrow> Add key b items
                   | MarshalError _ \<Rightarrow> items)
                else items
            | VUint _ \<Rightarrow> items
            | VOther \<Rightarrow> items))"

definition queryItems :: "env \<Rightarrow> field list \<Rightarrow> Values" where
  "queryItems E fs = foldl (addField E) [] fs"

definition queryString :: "env \<Rightarrow> options \<Rightarrow> string" where
  "queryString E opts =
     (case opts of
        NoOptions \<Rightarrow> ''''
      | Struct fs \<Rightarrow> Encode (queryItems E fs)
      | PtrToStruct fs \<Rightarrow> Encode (queryItems E fs)
      | NotStruct \<Rightarrow> '''')"

section \<open>Headers and the build call\<close>

text \<open>
  The loop of \<^verbatim>\<open>headersWithAuth\<close>: each value is marshalled, and the two authentication
  structs are stored, base64-encoded, under their header names.
\<close>

fun headersWithAuth_loop :: "env \<Rightarrow> gvalue list \<Rightarrow> (string \<rightharpoonup> string) \<Rightarrow> error + (string \<rightharpoonup> string)" where
  "headersWithAuth_loop E [] headers = Inr headers"
| "headersWithAuth_loop E (auth # rest) headers =
     (case jsonMarshal E auth of
        MarshalError e \<Rightarrow> Inl (Foreign e)
      | Marshalled data \<Rightarrow>
          headersWithAuth_loop E rest
            (case auth of
               AuthConf _ \<Rightarrow> headers(''X-Registry-Auth'' \<mapsto> EncodeToString E data)
             | AuthConfs _ \<Rightarrow> headers(''X-Registry-Config'' \<mapsto> EncodeToString E data)
             | Opaque _ \<Rightarrow> headers))"

definition headersWithAuth :: "env \<Rightarrow> gvalue list \<Rightarrow> error + (string \<rightharpoonup> string)" where
  "headersWithAuth E auths = headersWithAuth_loop E auths Map.empty"

record BuildImageOption =
  Name :: string
  SuppressOutput :: bool
  NoCache :: bool
  Pull :: bool
  RmTmpContainer :: bool
  ForceRmTmpContainer :: bool
  Remote :: string
  InputStream :: "reader option"
  OutputStream :: "writer option"
  RawJSONStream :: bool
  Auth :: AuthConfiguration
  AuthConfigs :: AuthConfigurations
  ContextDir :: string

text \<open>The fields of a \<^verbatim>\<open>BuildImageOption\<close> as \<^verbatim>\<open>reflect\<close> shows them, in declaration order.\<close>

definition reflect_BuildImageOption :: "BuildImageOption \<Rightarrow> field list" where
  "reflect_BuildImageOption opt =
     [\<lparr>FieldName = ''Name'', PkgPath = '''', qs = ''t'', fvalue = VString (Name opt)\<rparr>,
      \<lparr>FieldName = ''SuppressOutput'', PkgPath = '''', qs = ''q'', fvalue = VBool (SuppressOutput opt)\<rparr>,
      \<lparr>FieldName = ''NoCache'', PkgPath = '''', qs = ''nocache'', fvalue = VBool (NoCache opt)\<rparr>,
      \<lparr>FieldName = ''Pull'', PkgPath = '''', qs = ''pull'', fvalue = VBool (Pull opt)\<rparr>,
      \<lparr>FieldName = ''RmTmpContainer'', PkgPath = '''', qs = ''rm'', fvalue = VBool (RmTmpContainer opt)\<rparr>,
      \<lparr>FieldName = ''ForceRmTmpContainer'', PkgPath = '''', qs = ''forcerm'',
        fvalue = VBool (ForceRmTmpContainer opt)\<rparr>,
      \<lparr>FieldName = ''Remote'', PkgPath = '''', qs = ''remote'', fvalue = VString (Remote opt)\<rparr>,
      \<lparr>FieldName = ''InputStream'', PkgPath = '''', qs = ''-'', fvalue = VOther\<rparr>,
      \<lparr>FieldName = ''OutputStream'', PkgPath = '''', qs = ''-'', fvalue = VOther\<rparr>,
      \<lparr>FieldName = ''RawJSONStream'', PkgPath = '''', qs = ''-'', fvalue = VBool (RawJSONStream opt)\<rparr>,
      \<lparr>FieldName = ''Auth'', PkgPath = '''', qs = ''-'', fvalue = VOther\<rparr>,
      \<lparr>FieldName = ''AuthConfigs'', PkgPath = '''', qs = ''-'', fvalue = VOther\<rparr>,
      \<lparr>FieldName = ''ContextDir'', PkgPath = '''', qs = ''-'', fvalue = VString (ContextDir opt)\<rparr>]"

text \<open>
  Lines 76 to 97 of \<^verbatim>\<open>BuildImage\<close>: the checks, the headers and the build context. The
  result is the error returned, or the headers and the options as they are when
  \<^verbatim>\<open>stream\<close> is called (the input stream is the archive of the context directory when one
  was given).
\<close>

definition BuildImage_prepare :: "env \<Rightarrow> BuildImageOption \<Rightarrow> error + (string \<rightharpoonup> string) \<times> BuildImageOption" where
  "BuildImage_prepare E opt =
     (if OutputStream opt = None then Inl ErrMissingOutputStream
      else
        (case headersWithAuth E [AuthConf (Auth opt), AuthConfs (AuthConfigs opt)] of
           Inl err \<Rightarrow> Inl (ErrorString (''marshal header: '' @ errorText err))
         | Inr headers0 \<Rightarrow>
             if InputStream opt \<noteq> None \<or> length (ContextDir opt) > 0 then
               (let headers = headers0(''Content-Type'' \<mapsto> ''application/tar'')
                in if length (ContextDir opt) > 0 then
                     if InputStream opt \<noteq> None then Inl ErrMultipleContexts
                     else
                       (case createTarStream E (ContextDir opt) of
                          Inl err \<Rightarrow> Inl (ErrorString (''create tar stream: '' @ errorText err))
                        | Inr r \<Rightarrow> Inr (headers, opt\<lparr>InputStream := Some r\<rparr>))
                   else Inr (headers, opt))
             else Inl ErrMissingContext))"

definition BuildImage :: "env \<Rightarrow> Client \<Rightarrow> BuildImageOption \<Rightarrow> world \<Rightarrow> error option \<times> world" where
  "BuildImage E c opt w =
     (case BuildImage_prepare E opt of
        Inl err \<Rightarrow> (Some err, w)
      | Inr (headers, opt') \<Rightarrow>
          stream E c ''POST''
            (''/build?'' @ queryString E (PtrToStruct (reflect_BuildImageOption opt')))
            True (RawJSONStream opt') headers (InputStream opt') (OutputStream opt') None w)"

section \<open>Example values\<close>

text \<open>
  Values used where a theorem is applied to a concrete input: an environment in which
  nothing parses and nothing answers (its header keys are the three that \<^verbatim>\<open>BuildImage\<close>
  sets, which are canonical), a client of a TCP endpoint, a world in which nothing has
  happened yet, and a response carrying three progress events.
\<close>

text \<open>\<^verbatim>\<open>strings.ToLower\<close> on ASCII text, for the example environment.\<close>

definition asciiLower :: "string \<Rightarrow> string" where
  "asciiLower s =
     map (\<lambda>c. case map_of (zip ''ABCDEFGHIJKLMNOPQRSTUVWXYZ'' ''abcdefghijklmnopqrstuvwxyz'') c of
                Some l \<Rightarrow> l | None \<Rightarrow> c) s"

definition quiet_env :: env where
  "quiet_env = \<lparr>urlParse = (\<lambda>s. None), SplitHostPort = (\<lambda>s. Inl (OtherError ''invalid'')),
     MustInt = (\<lambda>s. 0), URLString = (\<lambda>u. Scheme u @ ''://'' @ Host u @ Path u),
     NewRequest = (\<lambda>m t. None), Dial = (\<lambda>p a. None),
     ConnDo = (\<lambda>a r. None), CanonicalKey = (\<lambda>k. k),
     rangeOrder = (\<lambda>m. filter (\<lambda>k. m k \<noteq> None)
       [''Content-Type'', ''X-Registry-Auth'', ''X-Registry-Config'']),
     HTTPDo = (\<lambda>r. Inl (Foreign ''EOF'')),
     Decode = (\<lambda>r. []), stdCopy = (\<lambda>r. ([], None)),
     createTarStream = (\<lambda>d. Inl (Foreign ''no such directory'')), ToLower = asciiLower,
     FormatFloat = (\<lambda>x. ''''), MarshalAuth = (\<lambda>a. ''''), MarshalAuths = (\<lambda>a. ''''),
     MarshalOpaque = (\<lambda>n. MarshalError ''unsupported type''), EncodeToString = (\<lambda>s. s)\<rparr>"

definition tcp_client :: Client where
  "tcp_client = \<lparr>endpoint = ''tcp://localhost:2375'',
     endpointURL = \<lparr>Scheme = ''http'', Host = ''localhost:2375'', Path = '''', RawQuery = ''''\<rparr>\<rparr>"

definition fresh_world :: world where
  "fresh_world = \<lparr>written = (\<lambda>k. ''''), netlog = [], logged = []\<rparr>"

definition three_events :: "decoded list" where
  "three_events =
     [Message \<lparr>Status = '''', Progress = '''', Error = '''', Stream = ''a''\<rparr>,
      Message \<lparr>Status = ''Downloading'', Progress = ''50%'', Error = '''', Stream = ''''\<rparr>,
      Message \<lparr>Status = ''Done'', Progress = '''', Error = '''', Stream = ''''\<rparr>]"

definition three_events_body :: reader where
  \<open>three_events_body =
     \<lparr>content = ''{"stream":"a"}{"progress":"50%","status":"Downloading"}{"status":"Done"}'',
      failure = None\<rparr>\<close>

definition three_events_response :: response where
  "three_events_response =
     \<lparr>StatusCode = 200, Header = [''Content-Type'' \<mapsto> [''application/json'']],
      Body = three_events_body\<rparr>"

definition three_events_env :: env where
  "three_events_env = quiet_env
     \<lparr>HTTPDo := (\<lambda>r. Inr three_events_response),
      Decode := (\<lambda>r. if r = three_events_body then three_events else [])\<rparr>"

definition not_found_response :: response where
  "not_found_response =
     \<lparr>StatusCode = 404, Header = [''Content-Type'' \<mapsto> [''text/plain'']],
      Body = \<lparr>content = ''no such image'', failure = None\<rparr>\<rparr>"

definition not_found_env :: env where
  "not_found_env = quiet_env\<lparr>HTTPDo := (\<lambda>r. Inr not_found_response)\<rparr>"

definition charset_response :: response where
  "charset_response =
     \<lparr>StatusCode = 200, Header = [''Content-Type'' \<mapsto> [''application/json; charset=utf-8'']],
      Body = \<lparr>content = ''hello'', failure = None\<rparr>\<rparr>"

definition charset_env :: env where
  "charset_env = quiet_env\<lparr>HTTPDo := (\<lambda>r. Inr charset_response)\<rparr>"

text \<open>
  An environment that knows a few endpoint strings, with the results the library gives
  for them: \<^verbatim>\<open>url.Parse\<close> splits off the scheme and the host, \<^verbatim>\<open>net.SplitHostPort\<close>
  reports a missing port for a host without a colon.
\<close>

definition tcp_env :: env where
  "tcp_env = quiet_env
     \<lparr>urlParse := (\<lambda>s.
        if s = ''tcp://localhost:2376''
        then Some \<lparr>Scheme = ''tcp'', Host = ''localhost:2376'', Path = '''', RawQuery = ''''\<rparr>
        else if s = ''tcp://localhost:2375''
        then Some \<lparr>Scheme = ''tcp'', Host = ''localhost:2375'', Path = '''', RawQuery = ''''\<rparr>
        else if s = ''tcp://localhost''
        then Some \<lparr>Scheme = ''tcp'', Host = ''localhost'', Path = '''', RawQuery = ''''\<rparr>
        else if s = ''ftp://localhost:21''
        then Some \<lparr>Scheme = ''ftp'', Host = ''localhost:21'', Path = '''', RawQuery = ''''\<rparr>
        else None),
      SplitHostPort := (\<lambda>h.
        if h = ''localhost:2376'' then Inr (''localhost'', ''2376'')
        else if h = ''localhost:2375'' then Inr (''localhost'', ''2375'')
        else if h = ''localhost:21'' then Inr (''localhost'', ''21'')
        else Inl (AddrError ''missing port in address'')),
      MustInt := (\<lambda>p. if p = ''2376'' then 2376 else if p = ''2375'' then 2375
                       else if p = ''21'' then 21 else 0)\<rparr>"

definition broken_body_response :: response where
  "broken_body_response =
     \<lparr>StatusCode = 500, Header = [''Content-Type'' \<mapsto> [''text/plain'']],
      Body = \<lparr>content = ''Internal Ser'', failure = Some ''unexpected EOF''\<rparr>\<rparr>"

definition broken_body_env :: env where
  "broken_body_env = quiet_env\<lparr>HTTPDo := (\<lambda>r. Inr broken_body_response)\<rparr>"

text \<open>
  Options for a build from an input stream, and fields of other structs: a field named
  \<^verbatim>\<open>CpuShares\<close> without a tag, and an unexported field.
\<close>

definition stream_options :: BuildImageOption where
  "stream_options =
     \<lparr>Name = ''demo app'', SuppressOutput = False, NoCache = True, Pull = False,
      RmTmpContainer = True, ForceRmTmpContainer = False, Remote = '''',
      InputStream = Some \<lparr>content = ''tar bytes'', failure = None\<rparr>,
      OutputStream = Some (Sink 0), RawJSONStream = False,
      Auth = \<lparr>Username = '''', Password = '''', Email = '''', ServerAddress = ''''\<rparr>,
      AuthConfigs = \<lparr>Configs = Map.empty\<rparr>, ContextDir = ''''\<rparr>"

definition cpu_shares_field :: "int \<Rightarrow> field" where
  "cpu_shares_field n = \<lparr>FieldName = ''CpuShares'', PkgPath = '''', qs = '''', fvalue = VInt n\<rparr>"

definition quiet_field :: "bool \<Rightarrow> field" where
  "quiet_field b = \<lparr>FieldName = ''Quiet'', PkgPath = '''', qs = ''q'', fvalue = VBool b\<rparr>"

definition unexported_field :: field where
  "unexported_field = \<lparr>FieldName = ''verbose'', PkgPath = ''github.com/dockercn/rudder'', qs = ''v'', fvalue = VBool True\<rparr>"










section \<open>Properties of the decoding loop\<close>

lemma stream_events_three:
  "stream_events three_events (Sink k) w =
     (None, w\<lparr>written := (written w)(k := written w k @ ''a'' @ ''Downloading 50%'' @ [CR]
         @ ''Downloading'' @ [LF] @ ''Done'' @ [LF])\<rparr>)"
  by (simp add: three_events_def stream_event_def)

text \<open>
  Once the round trip has given a response whose status is in the range from 200 to 399,
  \<^verbatim>\<open>stream\<close> is the branch on the content type, run on the writers with nil replaced.
\<close>

lemma stream_answered:
  assumes "stream_send E c method path headers input w = (Answered (Inr resp), w1)"
    and "200 \<le> StatusCode resp" and "StatusCode resp < 400"
  shows "stream E c method path setRawTerminal rawJSONStream headers input stdout stderr w =
           stream_decode E resp setRawTerminal rawJSONStream
             (case stdout of None \<Rightarrow> Discard | Some x \<Rightarrow> x)
             (case stderr of None \<Rightarrow> Discard | Some x \<Rightarrow> x) w1"
  using assms by (simp add: stream_def stream_response_def)

text \<open>
  C1. In JSON-event mode (the response has content type \<^verbatim>\<open>application/json\<close> and a status
  from 200 to 399, and the raw JSON stream was not asked for), when the decoder yields the
  events \<^verbatim>\<open>{"stream":"a"}\<close>, \<^verbatim>\<open>{"progress":"50%","status":"Downloading"}\<close> and
  \<^verbatim>\<open>{"status":"Done"}\<close> and then the end of the body, \<^verbatim>\<open>stream\<close> appends to the stdout
  sink exactly \<open>a\<close>, \<open>Downloading 50%\<close> with a carriage return, \<open>Downloading\<close> with a
  newline and \<open>Done\<close> with a newline, changes nothing else, and returns nil.
\<close>

theorem C1_three_events_output:
  assumes sent: "stream_send E c method path headers input w = (Answered (Inr resp), w1)"
    and ok: "200 \<le> StatusCode resp" "StatusCode resp < 400"
    and ct: "HeaderGet (Header resp) ''Content-Type'' = ''application/json''"
    and events: "Decode E (Body resp) =
      [Message \<lparr>Status = '''', Progress = '''', Error = '''', Stream = ''a''\<rparr>,
       Message \<lparr>Status = ''Downloading'', Progress = ''50%'', Error = '''', Stream = ''''\<rparr>,
       Message \<lparr>Status = ''Done'', Progress = '''', Error = '''', Stream = ''''\<rparr>]"
  shows "stream E c method path setRawTerminal False headers input (Some (Sink k)) stderr w =
     (None, w1\<lparr>written := (written w1)(k := written w1 k @ ''a'' @ ''Downloading 50%'' @ [CR]
         @ ''Downloading'' @ [LF] @ ''Done'' @ [LF])\<rparr>)"
proof -
  have "stream E c method path setRawTerminal False headers input (Some (Sink k)) stderr w =
          stream_events (Decode E (Body resp)) (Sink k) w1"
    using stream_answered [OF sent ok] ct by (simp add: stream_decode_def)
  also have "Decode E (Body resp) = three_events"
    by (simp only: events three_events_def)
  finally show ?thesis
    by (simp only: stream_events_three)
qed

lemma three_events_sent:
  "fst (stream_send three_events_env tcp_client ''POST'' ''/build'' Map.empty None fresh_world) =
     Answered (Inr three_events_response)"
  by (simp add: stream_send_def three_events_env_def quiet_env_def tcp_client_def Let_def)

theorem C1_three_events_output_witness:
  "fst (stream three_events_env tcp_client ''POST'' ''/build'' True False Map.empty None
          (Some (Sink 0)) None fresh_world) = None
   \<and> written (snd (stream three_events_env tcp_client ''POST'' ''/build'' True False Map.empty None
          (Some (Sink 0)) None fresh_world)) 0
       = ''aDownloading 50%'' @ [CR] @ ''Downloading'' @ [LF] @ ''Done'' @ [LF]"
proof -
  have s: "stream_send three_events_env tcp_client ''POST'' ''/build'' Map.empty None fresh_world =
     (Answered (Inr three_events_response),
      snd (stream_send three_events_env tcp_client ''POST'' ''/build'' Map.empty None fresh_world))"
    using three_events_sent by (metis prod.collapse)
  have w: "written (snd (stream_send three_events_env tcp_client ''POST'' ''/build'' Map.empty None
              fresh_world)) 0 = ''''"
    by (simp add: stream_send_def three_events_env_def quiet_env_def tcp_client_def
        fresh_world_def Let_def)
  show ?thesis
    using C1_three_events_output [OF s, of True 0 None] w
    by (simp add: three_events_response_def HeaderGet_def three_events_env_def quiet_env_def
        three_events_def)
qed

text \<open>
  The loop over a sequence of events that is cut in two: the second part runs only when
  the first part reached its end without returning.
\<close>

lemma stream_events_append:
  "stream_events (xs @ ys) out w =
     (case stream_events xs out w of
        (None, w1) \<Rightarrow> stream_events ys out w1
      | (Some e, w1) \<Rightarrow> (Some e, w1))"
proof (induction xs arbitrary: w)
  case Nil
  show ?case by simp
next
  case (Cons x xs)
  show ?case
  proof (cases x)
    case (Message m)
    then show ?thesis using Cons.IH by (simp split: sum.splits)
  next
    case (Malformed e)
    then show ?thesis by simp
  qed
qed

text \<open>
  C2, as the code has it. Let the loop reach an event: the events before it were
  processed to the end, leaving the world \<open>w1\<close>. If its \<open>error\<close> field is not empty and its
  \<open>stream\<close> and \<open>progress\<close> fields are empty, the loop returns an error carrying exactly
  that message; the world is \<open>w1\<close>, so the event wrote nothing (its \<open>status\<close> included)
  and no event after it was processed. If its \<open>stream\<close> field is not empty, that field is
  written; otherwise, if its \<open>progress\<close> field is not empty, the status, a space, the
  progress and a carriage return are written. In these two cases the status line follows
  when the status is not empty and the loop goes on with the next event, whatever the
  \<open>error\<close> field holds: it is not looked at.
\<close>

theorem C2_error_aborts:
  assumes before: "stream_events before out w = (None, w1)"
  shows "(Error m \<noteq> '''' \<and> Stream m = '''' \<and> Progress m = '''' \<longrightarrow>
            stream_events (before @ Message m # after) out w
              = (Some (ErrorString (Error m)), w1))
       \<and> (Stream m \<noteq> '''' \<longrightarrow>
            stream_events (before @ Message m # after) out w
              = (let w2 = Fprint out (Stream m) w1
                 in stream_events after out
                      (if Status m \<noteq> '''' then Fprint out (Status m @ [LF]) w2 else w2)))
       \<and> (Stream m = '''' \<and> Progress m \<noteq> '''' \<longrightarrow>
            stream_events (before @ Message m # after) out w
              = (let w2 = Fprint out (Status m @ '' '' @ Progress m @ [CR]) w1
                 in stream_events after out
                      (if Status m \<noteq> '''' then Fprint out (Status m @ [LF]) w2 else w2)))"
  using before by (simp add: stream_events_append stream_event_def Let_def)

theorem C2_error_aborts_witness:
  "stream_events
     ([Message \<lparr>Status = '''', Progress = '''', Error = '''', Stream = ''a''\<rparr>]
      @ Message \<lparr>Status = ''failed'', Progress = '''', Error = ''build failed'', Stream = ''''\<rparr>
      # [Message \<lparr>Status = ''Done'', Progress = '''', Error = '''', Stream = ''''\<rparr>])
     (Sink 0) fresh_world
   = (Some (ErrorString ''build failed''), fresh_world\<lparr>written := (\<lambda>k. '''')(0 := ''a'')\<rparr>)
   \<and> stream_events
     ([] @ Message \<lparr>Status = '''', Progress = '''', Error = ''build failed'', Stream = ''Step 1''\<rparr>
      # [Message \<lparr>Status = ''Done'', Progress = '''', Error = '''', Stream = ''''\<rparr>])
     (Sink 0) fresh_world
   = (None, fresh_world\<lparr>written := (\<lambda>k. '''')(0 := ''Step 1Done'' @ [LF])\<rparr>)
   \<and> stream_events
     ([] @ Message \<lparr>Status = ''Pulling'', Progress = ''50%'', Error = ''build failed'', Stream = ''''\<rparr>
      # [Message \<lparr>Status = ''Done'', Progress = '''', Error = '''', Stream = ''''\<rparr>])
     (Sink 0) fresh_world
   = (None, fresh_world\<lparr>written := (\<lambda>k. '''')
        (0 := ''Pulling 50%'' @ [CR] @ ''Pulling'' @ [LF] @ ''Done'' @ [LF])\<rparr>)"
proof -
  have b1: "stream_events [Message \<lparr>Status = '''', Progress = '''', Error = '''', Stream = ''a''\<rparr>]
              (Sink 0) fresh_world = (None, fresh_world\<lparr>written := (\<lambda>k. '''')(0 := ''a'')\<rparr>)"
    by (simp add: stream_event_def fresh_world_def)
  have b2: "stream_events [] (Sink 0) fresh_world = (None, fresh_world)"
    by simp
  have d: "stream_events [Message \<lparr>Status = ''Done'', Progress = '''', Error = '''', Stream = ''''\<rparr>]
              (Sink 0) v = (None, Fprint (Sink 0) (''Done'' @ [LF]) v)" for v
    by (simp add: stream_event_def)
  show ?thesis
    using C2_error_aborts [OF b1,
        of "\<lparr>Status = ''failed'', Progress = '''', Error = ''build failed'', Stream = ''''\<rparr>"
        "[Message \<lparr>Status = ''Done'', Progress = '''', Error = '''', Stream = ''''\<rparr>]"]
      C2_error_aborts [OF b2,
        of "\<lparr>Status = '''', Progress = '''', Error = ''build failed'', Stream = ''Step 1''\<rparr>"
        "[Message \<lparr>Status = ''Done'', Progress = '''', Error = '''', Stream = ''''\<rparr>]"]
      C2_error_aborts [OF b2,
        of "\<lparr>Status = ''Pulling'', Progress = ''50%'', Error = ''build failed'', Stream = ''''\<rparr>"
        "[Message \<lparr>Status = ''Done'', Progress = '''', Error = '''', Stream = ''''\<rparr>]"]
    by (simp add: d stream_event_def fresh_world_def Let_def)
qed

text \<open>
  C2 as stated fails: an event with a non-empty \<open>error\<close> field and a non-empty \<open>stream\<close>
  field has its \<open>stream\<close> written, the error is not looked at, the next event is processed
  and the loop returns nil.
\<close>

theorem C2_error_priority_counterexample:
  "stream_events
     [Message \<lparr>Status = '''', Progress = '''', Error = ''build failed'', Stream = ''Step 1''\<rparr>,
      Message \<lparr>Status = ''Done'', Progress = '''', Error = '''', Stream = ''''\<rparr>]
     (Sink 0) fresh_world
   = (None, fresh_world\<lparr>written := (\<lambda>k. '''')(0 := ''Step 1Done'' @ [LF])\<rparr>)"
  by (simp add: stream_event_def fresh_world_def)

section \<open>Properties of the status test\<close>

text \<open>Sending does not depend on the decoders.\<close>

lemma requestHeader_decoders:
  "requestHeader (E\<lparr>Decode := d, stdCopy := sc\<rparr>) method headers = requestHeader E method headers"
  by (simp add: requestHeader_def cong: option.case_cong)

lemma stream_send_decoders:
  "stream_send (E\<lparr>Decode := d, stdCopy := sc\<rparr>) c method path headers input w =
   stream_send E c method path headers input w"
  by (simp add: stream_send_def getURL_def requestHeader_decoders Let_def cong: option.case_cong)

lemma stream_events_no_APIError: "fst (stream_events evs out w) \<noteq> Some (APIError s m)"
proof (induction evs arbitrary: w)
  case Nil
  show ?case by simp
next
  case (Cons x xs)
  show ?case
  proof (cases x)
    case (Message msg)
    then show ?thesis using Cons.IH by (simp add: stream_event_def)
  next
    case (Malformed e)
    then show ?thesis by simp
  qed
qed

lemma Copy_no_APIError: "fst (Copy dst src w) \<noteq> Some (APIError s m)"
  by (cases "failure src") (simp_all add: Copy_def)

text \<open>
  C3, as the code has it. Let the round trip give a response. If its status code is
  outside the range from 200 to 399, \<^verbatim>\<open>stream\<close> reads the whole body; when the read
  succeeds, with the text \<open>body\<close>, it returns the \<^verbatim>\<open>Error\<close> with that status code and
  that text, and when the read fails it returns the read error. In both cases the world
  is as it was after sending (nothing was written to a sink), whatever the JSON decoder
  and the demultiplexer are: neither runs. If the status code is in the range, \<^verbatim>\<open>stream\<close>
  makes no \<^verbatim>\<open>Error\<close> of the API: in the JSON branch and in the raw-terminal branch the
  error returned, if any, is none, and in the remaining branch the error returned is the
  very error that the demultiplexer returns.
\<close>

theorem C3_status_outside:
  assumes sent: "stream_send E c method path headers input w = (Answered (Inr resp), w1)"
  shows "(StatusCode resp < 200 \<or> 400 \<le> StatusCode resp \<longrightarrow>
            (\<forall>body. ReadAll (Body resp) = Inr body \<longrightarrow>
               (\<forall>d sc. stream (E\<lparr>Decode := d, stdCopy := sc\<rparr>) c method path setRawTerminal
                         rawJSONStream headers input stdout stderr w =
                       (Some (APIError (StatusCode resp) body), w1))))
       \<and> (StatusCode resp < 200 \<or> 400 \<le> StatusCode resp \<longrightarrow>
            (\<forall>e. ReadAll (Body resp) = Inl e \<longrightarrow>
               (\<forall>d sc. stream (E\<lparr>Decode := d, stdCopy := sc\<rparr>) c method path setRawTerminal
                         rawJSONStream headers input stdout stderr w = (Some e, w1))))
       \<and> (200 \<le> StatusCode resp \<and> StatusCode resp < 400
            \<and> (HeaderGet (Header resp) ''Content-Type'' = ''application/json'' \<or> setRawTerminal) \<longrightarrow>
            (\<forall>s m. fst (stream E c method path setRawTerminal rawJSONStream headers input
                          stdout stderr w) \<noteq> Some (APIError s m)))
       \<and> (200 \<le> StatusCode resp \<and> StatusCode resp < 400
            \<and> HeaderGet (Header resp) ''Content-Type'' \<noteq> ''application/json'' \<and> \<not> setRawTerminal \<longrightarrow>
            fst (stream E c method path setRawTerminal rawJSONStream headers input stdout stderr w)
              = snd (stdCopy E (Body resp)))"
proof (intro conjI impI allI)
  fix body d sc
  assume out: "StatusCode resp < 200 \<or> 400 \<le> StatusCode resp"
    and body: "ReadAll (Body resp) = Inr body"
  have "stream_send (E\<lparr>Decode := d, stdCopy := sc\<rparr>) c method path headers input w =
          (Answered (Inr resp), w1)"
    using sent by (simp only: stream_send_decoders)
  then show "stream (E\<lparr>Decode := d, stdCopy := sc\<rparr>) c method path setRawTerminal
               rawJSONStream headers input stdout stderr w =
             (Some (APIError (StatusCode resp) body), w1)"
    using out body by (auto simp add: stream_def stream_response_def newError_def)
next
  fix e d sc
  assume out: "StatusCode resp < 200 \<or> 400 \<le> StatusCode resp"
    and failed: "ReadAll (Body resp) = Inl e"
  have "stream_send (E\<lparr>Decode := d, stdCopy := sc\<rparr>) c method path headers input w =
          (Answered (Inr resp), w1)"
    using sent by (simp only: stream_send_decoders)
  then show "stream (E\<lparr>Decode := d, stdCopy := sc\<rparr>) c method path setRawTerminal
               rawJSONStream headers input stdout stderr w = (Some e, w1)"
    using out failed by (auto simp add: stream_def stream_response_def)
next
  fix s m
  assume inside: "200 \<le> StatusCode resp \<and> StatusCode resp < 400
      \<and> (HeaderGet (Header resp) ''Content-Type'' = ''application/json'' \<or> setRawTerminal)"
  have "stream E c method path setRawTerminal rawJSONStream headers input stdout stderr w =
          stream_decode E resp setRawTerminal rawJSONStream
            (case stdout of None \<Rightarrow> Discard | Some x \<Rightarrow> x)
            (case stderr of None \<Rightarrow> Discard | Some x \<Rightarrow> x) w1"
    using stream_answered [OF sent] inside by simp
  then show "fst (stream E c method path setRawTerminal rawJSONStream headers input
                    stdout stderr w) \<noteq> Some (APIError s m)"
    using inside
    by (auto simp add: stream_decode_def stream_events_no_APIError Copy_no_APIError)
next
  assume inside: "200 \<le> StatusCode resp \<and> StatusCode resp < 400
      \<and> HeaderGet (Header resp) ''Content-Type'' \<noteq> ''application/json'' \<and> \<not> setRawTerminal"
  have "stream E c method path setRawTerminal rawJSONStream headers input stdout stderr w =
          stream_decode E resp setRawTerminal rawJSONStream
            (case stdout of None \<Rightarrow> Discard | Some x \<Rightarrow> x)
            (case stderr of None \<Rightarrow> Discard | Some x \<Rightarrow> x) w1"
    using stream_answered [OF sent] inside by simp
  then show "fst (stream E c method path setRawTerminal rawJSONStream headers input
                    stdout stderr w) = snd (stdCopy E (Body resp))"
    using inside by (simp add: stream_decode_def demux_def)
qed

lemma not_found_sent:
  "fst (stream_send not_found_env tcp_client ''POST'' ''/build'' Map.empty None fresh_world) =
     Answered (Inr not_found_response)"
  by (simp add: stream_send_def not_found_env_def quiet_env_def tcp_client_def Let_def)

lemma broken_body_sent:
  "fst (stream_send broken_body_env tcp_client ''POST'' ''/build'' Map.empty None fresh_world) =
     Answered (Inr broken_body_response)"
  by (simp add: stream_send_def broken_body_env_def quiet_env_def tcp_client_def Let_def)

theorem C3_status_outside_witness:
  "fst (stream (not_found_env\<lparr>Decode := (\<lambda>r. three_events), stdCopy := (\<lambda>r. ([(ToStdout, ''x'')], None))\<rparr>)
          tcp_client ''POST'' ''/build'' False False Map.empty None (Some (Sink 0)) (Some (Sink 1))
          fresh_world) = Some (APIError 404 ''no such image'')
   \<and> written (snd (stream (not_found_env\<lparr>Decode := (\<lambda>r. three_events), stdCopy := (\<lambda>r. ([(ToStdout, ''x'')], None))\<rparr>)
          tcp_client ''POST'' ''/build'' False False Map.empty None (Some (Sink 0)) (Some (Sink 1))
          fresh_world)) = (\<lambda>k. '''')
   \<and> fst (stream (broken_body_env\<lparr>Decode := (\<lambda>r. three_events), stdCopy := (\<lambda>r. ([(ToStdout, ''x'')], None))\<rparr>)
          tcp_client ''POST'' ''/build'' False False Map.empty None (Some (Sink 0)) (Some (Sink 1))
          fresh_world) = Some (Foreign ''unexpected EOF'')
   \<and> fst (stream three_events_env tcp_client ''POST'' ''/build'' True False Map.empty None
          (Some (Sink 0)) None fresh_world) \<noteq> Some (APIError 200 ''a'')
   \<and> fst (stream (charset_env\<lparr>stdCopy := (\<lambda>r. ([(ToStdout, ''he'')], Some (Foreign ''unexpected EOF'')))\<rparr>)
          tcp_client ''POST'' ''/build'' False False Map.empty None (Some (Sink 0)) (Some (Sink 1))
          fresh_world) = Some (Foreign ''unexpected EOF'')"
proof -
  let ?C = "charset_env\<lparr>stdCopy := (\<lambda>r. ([(ToStdout, ''he'')], Some (Foreign ''unexpected EOF'')))\<rparr>"
  have s: "stream_send not_found_env tcp_client ''POST'' ''/build'' Map.empty None fresh_world =
     (Answered (Inr not_found_response),
      snd (stream_send not_found_env tcp_client ''POST'' ''/build'' Map.empty None fresh_world))"
    using not_found_sent by (metis prod.collapse)
  have w: "written (snd (stream_send not_found_env tcp_client ''POST'' ''/build'' Map.empty None
              fresh_world)) = (\<lambda>k. '''')"
    by (simp add: stream_send_def not_found_env_def quiet_env_def tcp_client_def
        fresh_world_def Let_def)
  have b: "stream_send broken_body_env tcp_client ''POST'' ''/build'' Map.empty None fresh_world =
     (Answered (Inr broken_body_response),
      snd (stream_send broken_body_env tcp_client ''POST'' ''/build'' Map.empty None fresh_world))"
    using broken_body_sent by (metis prod.collapse)
  have t: "stream_send three_events_env tcp_client ''POST'' ''/build'' Map.empty None fresh_world =
     (Answered (Inr three_events_response),
      snd (stream_send three_events_env tcp_client ''POST'' ''/build'' Map.empty None fresh_world))"
    using three_events_sent by (metis prod.collapse)
  have "fst (stream_send ?C tcp_client ''POST'' ''/build'' Map.empty None fresh_world) =
      Answered (Inr charset_response)"
    by (simp add: stream_send_def charset_env_def quiet_env_def tcp_client_def Let_def)
  then have c: "stream_send ?C tcp_client ''POST'' ''/build'' Map.empty None fresh_world =
     (Answered (Inr charset_response),
      snd (stream_send ?C tcp_client ''POST'' ''/build'' Map.empty None fresh_world))"
    by (metis prod.collapse)
  have stat: "StatusCode not_found_response = 404" "StatusCode three_events_response = 200"
    "StatusCode broken_body_response = 500" "StatusCode charset_response = 200"
    and body: "ReadAll (Body not_found_response) = Inr ''no such image''"
    "ReadAll (Body broken_body_response) = Inl (Foreign ''unexpected EOF'')"
    and ct: "HeaderGet (Header three_events_response) ''Content-Type'' = ''application/json''"
    "HeaderGet (Header charset_response) ''Content-Type'' \<noteq> ''application/json''"
    by (simp_all add: not_found_response_def three_events_response_def broken_body_response_def
        charset_response_def ReadAll_def HeaderGet_def)
  show ?thesis
    using C3_status_outside [OF s, of False False "Some (Sink 0)" "Some (Sink 1)"]
      C3_status_outside [OF b, of False False "Some (Sink 0)" "Some (Sink 1)"]
      C3_status_outside [OF t, of True False "Some (Sink 0)" None]
      C3_status_outside [OF c, of False False "Some (Sink 0)" "Some (Sink 1)"] w
    by (simp add: stat body ct)
qed

text \<open>
  C3 as stated fails: a response with status 500 whose body breaks off while it is read
  gives the read error, not an \<^verbatim>\<open>Error\<close> of the API (line 214).
\<close>

theorem C3_unread_body_counterexample:
  "StatusCode broken_body_response = 500
   \<and> fst (stream broken_body_env tcp_client ''POST'' ''/build'' True False Map.empty None
          (Some (Sink 0)) None fresh_world) = Some (Foreign ''unexpected EOF'')"
  by (simp add: stream_def stream_send_def stream_response_def broken_body_env_def quiet_env_def
      tcp_client_def broken_body_response_def ReadAll_def Let_def)

section \<open>Properties of the content-type branch\<close>

text \<open>
  C7. For a response that reaches the decoders (status from 200 to 399): if its
  \<^verbatim>\<open>Content-Type\<close> header is exactly \<^verbatim>\<open>application/json\<close>, \<^verbatim>\<open>stream\<close> is the JSON branch
  (the verbatim copy when the raw JSON stream is asked for, the event loop otherwise);
  for every other value it is the binary branch (the verbatim copy for a raw terminal,
  the demultiplexer otherwise), and so it is for \<^verbatim>\<open>application/json\<close> followed by
  parameters.
\<close>

theorem C7_content_type_branch:
  assumes sent: "stream_send E c method path headers input w = (Answered (Inr resp), w1)"
    and ok: "200 \<le> StatusCode resp" "StatusCode resp < 400"
    and out: "out = (case stdout of None \<Rightarrow> Discard | Some x \<Rightarrow> x)"
    and err: "err = (case stderr of None \<Rightarrow> Discard | Some x \<Rightarrow> x)"
  shows "(HeaderGet (Header resp) ''Content-Type'' = ''application/json'' \<longrightarrow>
            stream E c method path setRawTerminal rawJSONStream headers input stdout stderr w =
              (if rawJSONStream then Copy out (Body resp) w1
               else stream_events (Decode E (Body resp)) out w1))
       \<and> (HeaderGet (Header resp) ''Content-Type'' \<noteq> ''application/json'' \<longrightarrow>
            stream E c method path setRawTerminal rawJSONStream headers input stdout stderr w =
              (if setRawTerminal then Copy out (Body resp) w1
               else demux (stdCopy E (Body resp)) out err w1))
       \<and> (\<forall>params. params \<noteq> '''' \<and>
              HeaderGet (Header resp) ''Content-Type'' = ''application/json'' @ params \<longrightarrow>
            stream E c method path setRawTerminal rawJSONStream headers input stdout stderr w =
              (if setRawTerminal then Copy out (Body resp) w1
               else demux (stdCopy E (Body resp)) out err w1))"
  using stream_answered [OF sent ok] out err
  by (auto simp add: stream_decode_def)

lemma charset_sent:
  "fst (stream_send charset_env tcp_client ''POST'' ''/build'' Map.empty None fresh_world) =
     Answered (Inr charset_response)"
  by (simp add: stream_send_def charset_env_def quiet_env_def tcp_client_def Let_def)

theorem C7_content_type_branch_witness:
  "fst (stream charset_env tcp_client ''POST'' ''/build'' True False Map.empty None
          (Some (Sink 0)) None fresh_world) = None
   \<and> written (snd (stream charset_env tcp_client ''POST'' ''/build'' True False Map.empty None
          (Some (Sink 0)) None fresh_world)) 0 = ''hello''
   \<and> stream three_events_env tcp_client ''POST'' ''/build'' True False Map.empty None
          (Some (Sink 0)) None fresh_world
      = stream_events three_events (Sink 0)
          (snd (stream_send three_events_env tcp_client ''POST'' ''/build'' Map.empty None fresh_world))"
proof -
  have s: "stream_send charset_env tcp_client ''POST'' ''/build'' Map.empty None fresh_world =
     (Answered (Inr charset_response),
      snd (stream_send charset_env tcp_client ''POST'' ''/build'' Map.empty None fresh_world))"
    using charset_sent by (metis prod.collapse)
  have w: "written (snd (stream_send charset_env tcp_client ''POST'' ''/build'' Map.empty None
              fresh_world)) 0 = ''''"
    by (simp add: stream_send_def charset_env_def quiet_env_def tcp_client_def
        fresh_world_def Let_def)
  have t: "stream_send three_events_env tcp_client ''POST'' ''/build'' Map.empty None fresh_world =
     (Answered (Inr three_events_response),
      snd (stream_send three_events_env tcp_client ''POST'' ''/build'' Map.empty None fresh_world))"
    using three_events_sent by (metis prod.collapse)
  have r: "StatusCode charset_response = 200" "StatusCode three_events_response = 200"
    "HeaderGet (Header charset_response) ''Content-Type'' = ''application/json; charset=utf-8''"
    "HeaderGet (Header three_events_response) ''Content-Type'' = ''application/json''"
    "Body charset_response = \<lparr>content = ''hello'', failure = None\<rparr>"
    "Decode three_events_env (Body three_events_response) = three_events"
    by (simp_all add: charset_response_def three_events_response_def HeaderGet_def
        three_events_env_def quiet_env_def)
  show ?thesis
    using C7_content_type_branch [OF s, of "Sink 0" "Some (Sink 0)" Discard None True False]
      C7_content_type_branch [OF t, of "Sink 0" "Some (Sink 0)" Discard None True False] w
    by (simp add: r Copy_def)
qed

section \<open>Properties of endpoint resolution\<close>

text \<open>
  C4. For an endpoint string that parses with scheme \<open>tcp\<close>, whose host splits into a host
  and a port, and that resolves successfully, the resolved endpoint is the parsed one with
  its scheme set to \<open>https\<close> if the port is the number 2376 and to \<open>http\<close> otherwise.
\<close>

theorem C4_tcp_scheme:
  assumes parsed: "urlParse E ep = Some u"
    and tcp: "Scheme u = ''tcp''"
    and port: "SplitHostPort E (Host u) = Inr (host, port)"
    and resolved: "parseEndpoint E ep = Inr u'"
  shows "u' = u\<lparr>Scheme := (if MustInt E port = 2376 then ''https'' else ''http'')\<rparr>"
  using assms
  by (auto simp add: parseEndpoint_def checkEndpoint_def Let_def split: if_splits)

theorem C4_tcp_scheme_witness:
  "parseEndpoint tcp_env ''tcp://localhost:2376'' =
     Inr \<lparr>Scheme = ''https'', Host = ''localhost:2376'', Path = '''', RawQuery = ''''\<rparr>
   \<and> parseEndpoint tcp_env ''tcp://localhost:2375'' =
     Inr \<lparr>Scheme = ''http'', Host = ''localhost:2375'', Path = '''', RawQuery = ''''\<rparr>"
proof -
  have a: "parseEndpoint tcp_env ''tcp://localhost:2376'' =
     Inr \<lparr>Scheme = ''https'', Host = ''localhost:2376'', Path = '''', RawQuery = ''''\<rparr>"
    by (simp add: parseEndpoint_def checkEndpoint_def tcp_env_def quiet_env_def)
  have b: "parseEndpoint tcp_env ''tcp://localhost:2375'' =
     Inr \<lparr>Scheme = ''http'', Host = ''localhost:2375'', Path = '''', RawQuery = ''''\<rparr>"
    by (simp add: parseEndpoint_def checkEndpoint_def tcp_env_def quiet_env_def)
  have "\<lparr>Scheme = ''https'', Host = ''localhost:2376'', Path = '''', RawQuery = ''''\<rparr> =
        \<lparr>Scheme = ''tcp'', Host = ''localhost:2376'', Path = '''', RawQuery = ''''\<rparr>
          \<lparr>Scheme := (if MustInt tcp_env ''2376'' = 2376 then ''https'' else ''http'')\<rparr>"
    using C4_tcp_scheme [of tcp_env "''tcp://localhost:2376''"
        "\<lparr>Scheme = ''tcp'', Host = ''localhost:2376'', Path = '''', RawQuery = ''''\<rparr>"
        "''localhost''" "''2376''", OF _ _ _ a]
    by (simp add: tcp_env_def quiet_env_def)
  then show ?thesis using a b by simp
qed

text \<open>
  C5, as the code has it. When resolution succeeds, the scheme of the resolved endpoint is
  \<open>http\<close>, \<open>https\<close> or \<open>unix\<close>, or it is \<open>tcp\<close> and the endpoint is the parsed one, whose host
  has no port (the tolerated missing-port error). An input whose parsed scheme is none of
  \<open>tcp\<close>, \<open>http\<close>, \<open>https\<close> and \<open>unix\<close> fails with \<^verbatim>\<open>ErrInvalidEndpoint\<close>, and so does one
  that does not parse.
\<close>

theorem C5_resolved_schemes:
  "(parseEndpoint E ep = Inr u' \<longrightarrow>
      Scheme u' = ''http'' \<or> Scheme u' = ''https'' \<or> Scheme u' = ''unix''
      \<or> (Scheme u' = ''tcp'' \<and> urlParse E ep = Some u'
          \<and> SplitHostPort E (Host u') = Inl (AddrError ''missing port in address'')))
   \<and> (urlParse E ep = Some u \<and> Scheme u \<noteq> ''tcp'' \<and> Scheme u \<noteq> ''http''
        \<and> Scheme u \<noteq> ''https'' \<and> Scheme u \<noteq> ''unix'' \<longrightarrow>
      parseEndpoint E ep = Inl ErrInvalidEndpoint)
   \<and> (urlParse E ep = None \<longrightarrow> parseEndpoint E ep = Inl ErrInvalidEndpoint)"
  by (auto simp add: parseEndpoint_def checkEndpoint_def splitFailed_def Let_def
      split: if_splits option.splits sum.splits neterror.splits)

theorem C5_resolved_schemes_witness:
  "parseEndpoint tcp_env ''tcp://localhost:2376'' =
     Inr \<lparr>Scheme = ''https'', Host = ''localhost:2376'', Path = '''', RawQuery = ''''\<rparr>
   \<and> parseEndpoint tcp_env ''ftp://localhost:21'' = Inl ErrInvalidEndpoint
   \<and> parseEndpoint tcp_env ''::'' = Inl ErrInvalidEndpoint"
  using C5_resolved_schemes [of tcp_env "''tcp://localhost:2376''"
      "\<lparr>Scheme = ''https'', Host = ''localhost:2376'', Path = '''', RawQuery = ''''\<rparr>"
      "\<lparr>Scheme = ''tcp'', Host = ''localhost:2376'', Path = '''', RawQuery = ''''\<rparr>"]
    C5_resolved_schemes [of tcp_env "''ftp://localhost:21''"
      "\<lparr>Scheme = ''ftp'', Host = ''localhost:21'', Path = '''', RawQuery = ''''\<rparr>"
      "\<lparr>Scheme = ''ftp'', Host = ''localhost:21'', Path = '''', RawQuery = ''''\<rparr>"]
    C5_resolved_schemes [of tcp_env "''::''"
      "\<lparr>Scheme = ''ftp'', Host = ''localhost:21'', Path = '''', RawQuery = ''''\<rparr>"
      "\<lparr>Scheme = ''ftp'', Host = ''localhost:21'', Path = '''', RawQuery = ''''\<rparr>"]
  by (simp add: parseEndpoint_def checkEndpoint_def tcp_env_def quiet_env_def)

text \<open>
  C5 as stated fails: \<^verbatim>\<open>tcp://localhost\<close> has no port, the missing-port error is
  tolerated, and the endpoint is returned with the scheme \<open>tcp\<close>.
\<close>

theorem C5_tcp_without_port_counterexample:
  "parseEndpoint tcp_env ''tcp://localhost'' =
     Inr \<lparr>Scheme = ''tcp'', Host = ''localhost'', Path = '''', RawQuery = ''''\<rparr>"
  by (simp add: parseEndpoint_def splitFailed_def tcp_env_def quiet_env_def)

section \<open>Properties of the option encoding\<close>

text \<open>The strings that \<^verbatim>\<open>Encode\<close> writes, as a set, and what \<^verbatim>\<open>Add\<close> adds to them.\<close>

lemma set_EncodeParts:
  "set (EncodeParts v) = (\<Union>(k, vs) \<in> set v. (\<lambda>x. QueryEscape k @ ''='' @ QueryEscape x) ` set vs)"
  by (auto simp add: EncodeParts_def)

lemma set_EncodeParts_Cons:
  "set (EncodeParts ((k, vs) # items)) =
     (\<lambda>x. QueryEscape k @ ''='' @ QueryEscape x) ` set vs \<union> set (EncodeParts items)"
  by (simp add: set_EncodeParts)

lemma Add_parts:
  "set (EncodeParts (Add key v items)) =
     insert (QueryEscape key @ ''='' @ QueryEscape v) (set (EncodeParts items))"
proof (induction items)
  case Nil
  show ?case by (simp add: set_EncodeParts)
next
  case (Cons p items)
  obtain k vs where p: "p = (k, vs)" by (cases p)
  show ?case
  proof (cases "k = key")
    case True
    then show ?thesis by (simp add: p set_EncodeParts_Cons)
  next
    case False
    then show ?thesis using Cons.IH by (simp add: p set_EncodeParts_Cons)
  qed
qed

lemma addField_parts: "set (EncodeParts items) \<subseteq> set (EncodeParts (addField E items f))"
  by (auto simp add: addField_def Add_parts Let_def split: rvalue.splits option.splits marshalled.splits)

lemma foldl_addField_parts:
  "set (EncodeParts items) \<subseteq> set (EncodeParts (foldl (addField E) items fs))"
proof (induction fs arbitrary: items)
  case Nil
  show ?case by simp
next
  case (Cons f fs)
  show ?case using addField_parts [of items E f] Cons.IH [of "addField E items f"] by auto
qed

lemma queryItems_skip:
  assumes "addField E (foldl (addField E) [] fs1) f = foldl (addField E) [] fs1"
  shows "queryItems E (fs1 @ f # fs2) = queryItems E (fs1 @ fs2)"
  using assms by (simp add: queryItems_def)

lemma queryItems_part:
  assumes "\<And>items. addField E items f = Add key v items"
  shows "QueryEscape key @ ''='' @ QueryEscape v \<in> set (EncodeParts (queryItems E (fs1 @ f # fs2)))"
proof -
  have "QueryEscape key @ ''='' @ QueryEscape v
          \<in> set (EncodeParts (addField E (foldl (addField E) [] fs1) f))"
    by (simp add: assms Add_parts)
  then show ?thesis
    using foldl_addField_parts [of "addField E (foldl (addField E) [] fs1) f" E fs2]
    by (auto simp add: queryItems_def)
qed

lemma queryString_single:
  assumes "\<And>items. addField E items f = Add key v items"
  shows "queryString E (Struct [f]) = QueryEscape key @ ''='' @ QueryEscape v"
  by (simp add: queryString_def queryItems_def assms Encode_def EncodeParts_def writePart_def)

lemma QueryEscape_1: "QueryEscape ''1'' = ''1''"
  by (simp add: QueryEscape_def escapeByte_def shouldEscape_def)

lemma QueryEscape_5: "QueryEscape ''5'' = ''5''"
  by (simp add: QueryEscape_def escapeByte_def shouldEscape_def)

text \<open>
  \<^verbatim>\<open>QueryEscape\<close> leaves no \<^verbatim>\<open>&\<close>, so the pieces of an encoded query string are the strings
  that \<^verbatim>\<open>Encode\<close> wrote.
\<close>

lemma queryParts_nonempty: "queryParts s \<noteq> []"
  by (induction s) (simp_all split: list.splits)

lemma queryParts_plain: "CHR ''&'' \<notin> set s \<Longrightarrow> queryParts s = [s]"
  by (induction s) auto

lemma queryParts_append:
  "CHR ''&'' \<notin> set s \<Longrightarrow> queryParts (s @ CHR ''&'' # t) = s # queryParts t"
  by (induction s) auto

lemma queryParts_joined:
  assumes "\<forall>p \<in> set (p0 # ps). CHR ''&'' \<notin> set p"
  shows "queryParts (p0 @ concat (map (\<lambda>p. CHR ''&'' # p) ps)) = p0 # ps"
  using assms
proof (induction ps arbitrary: p0)
  case Nil
  then show ?case by (simp add: queryParts_plain)
next
  case (Cons q qs)
  have "queryParts (p0 @ CHR ''&'' # (q @ concat (map (\<lambda>p. CHR ''&'' # p) qs))) =
          p0 # queryParts (q @ concat (map (\<lambda>p. CHR ''&'' # p) qs))"
    using Cons.prems by (simp add: queryParts_append)
  then show ?case using Cons.IH [of q] Cons.prems by simp
qed

lemma foldl_writePart:
  "buf \<noteq> [] \<Longrightarrow> foldl writePart buf ps = buf @ concat (map (\<lambda>p. CHR ''&'' # p) ps)"
  by (induction ps arbitrary: buf) (simp_all add: writePart_def)

lemma hexDigit_not_amp: "n < 16 \<Longrightarrow> hexDigit n \<noteq> CHR ''&''"
proof -
  assume "n < 16"
  then have "n \<in> set [0..<16]" by simp
  moreover have "\<forall>k \<in> set [0..<16]. hexDigit k \<noteq> CHR ''&''"
    by (simp add: hexDigit_def upt_rec)
  ultimately show ?thesis by blast
qed

lemma escapeByte_no_amp: "CHR ''&'' \<notin> set (escapeByte c)"
proof -
  have "(of_char c :: nat) < 256" by (cases c) simp
  then have "(of_char c :: nat) div 16 < 16" "(of_char c :: nat) mod 16 < 16"
    by (simp_all add: less_mult_imp_div_less)
  then have h: "CHR ''&'' \<noteq> hexDigit (of_char c div 16)" "CHR ''&'' \<noteq> hexDigit (of_char c mod 16)"
    using hexDigit_not_amp by metis+
  have amp: "shouldEscape (CHR ''&'')" by (simp add: shouldEscape_def)
  show ?thesis
  proof (cases "shouldEscape c")
    case True
    then show ?thesis using h by (simp add: escapeByte_def)
  next
    case False
    then have "c \<noteq> CHR ''&''" using amp by auto
    then show ?thesis using False by (auto simp add: escapeByte_def)
  qed
qed

lemma QueryEscape_no_amp: "CHR ''&'' \<notin> set (QueryEscape s)"
  by (simp add: QueryEscape_def escapeByte_no_amp)

lemma EncodeParts_no_amp: "p \<in> set (EncodeParts v) \<Longrightarrow> CHR ''&'' \<notin> set p \<and> p \<noteq> []"
  by (auto simp add: set_EncodeParts QueryEscape_no_amp)

lemma queryParts_Encode:
  assumes "EncodeParts v \<noteq> []"
  shows "queryParts (Encode v) = EncodeParts v"
proof -
  obtain p0 ps where ps: "EncodeParts v = p0 # ps"
    using assms by (cases "EncodeParts v") auto
  have clean: "\<forall>p \<in> set (p0 # ps). CHR ''&'' \<notin> set p \<and> p \<noteq> []"
    using EncodeParts_no_amp [of _ v] by (simp add: ps)
  then have "Encode v = p0 @ concat (map (\<lambda>p. CHR ''&'' # p) ps)"
    by (simp add: Encode_def ps writePart_def foldl_writePart)
  then show ?thesis using queryParts_joined [of p0 ps] clean by (simp add: ps)
qed

lemma queryParts_member:
  "p \<in> set (EncodeParts v) \<Longrightarrow> p \<in> set (queryParts (Encode v))"
proof -
  assume p: "p \<in> set (EncodeParts v)"
  then have "EncodeParts v \<noteq> []" by auto
  then show ?thesis using queryParts_Encode [of v] p by simp
qed

text \<open>
  C8, as the code has it. In the encoding of a struct, at any position: a field that is
  unexported, or tagged \<^verbatim>\<open>qs:"-"\<close>, or a boolean set to false, or of a signed integer kind
  with a value of 0 or less, or an empty string, changes nothing: the query string is the
  one of the struct without the field. An exported field that is not tagged \<^verbatim>\<open>qs:"-"\<close>
  contributes \<open>key=1\<close> when it is a boolean set to true and \<open>key=5\<close> when it is of a signed
  integer kind with the value 5, the key being escaped as \<^verbatim>\<open>Encode\<close> does: whatever the
  fields before and after it, that string is one of the pieces of the query string
  between the \<^verbatim>\<open>&\<close> separators, for a struct and for a pointer to a struct, and it is the
  whole query string when the struct has no other field.
\<close>

theorem C8_field_encoding:
  "(PkgPath f \<noteq> '''' \<or> qs f = ''-'' \<or> fvalue f = VBool False
      \<or> (\<exists>i. fvalue f = VInt i \<and> i \<le> 0) \<or> fvalue f = VString '''' \<longrightarrow>
      queryString E (Struct (fs1 @ f # fs2)) = queryString E (Struct (fs1 @ fs2))
      \<and> queryString E (PtrToStruct (fs1 @ f # fs2)) = queryString E (PtrToStruct (fs1 @ fs2)))
   \<and> (PkgPath f = '''' \<and> qs f \<noteq> ''-'' \<and> fvalue f = VBool True \<longrightarrow>
      QueryEscape (fieldKey E f) @ ''=1'' \<in> set (queryParts (queryString E (Struct (fs1 @ f # fs2))))
      \<and> QueryEscape (fieldKey E f) @ ''=1''
            \<in> set (queryParts (queryString E (PtrToStruct (fs1 @ f # fs2))))
      \<and> queryString E (Struct [f]) = QueryEscape (fieldKey E f) @ ''=1'')
   \<and> (PkgPath f = '''' \<and> qs f \<noteq> ''-'' \<and> fvalue f = VInt 5 \<longrightarrow>
      QueryEscape (fieldKey E f) @ ''=5'' \<in> set (queryParts (queryString E (Struct (fs1 @ f # fs2))))
      \<and> QueryEscape (fieldKey E f) @ ''=5''
            \<in> set (queryParts (queryString E (PtrToStruct (fs1 @ f # fs2))))
      \<and> queryString E (Struct [f]) = QueryEscape (fieldKey E f) @ ''=5'')"
proof (intro conjI impI)
  assume skip: "PkgPath f \<noteq> '''' \<or> qs f = ''-'' \<or> fvalue f = VBool False
      \<or> (\<exists>i. fvalue f = VInt i \<and> i \<le> 0) \<or> fvalue f = VString ''''"
  have "addField E items f = items" for items
    using skip by (auto simp add: addField_def Let_def)
  then have eq: "queryItems E (fs1 @ f # fs2) = queryItems E (fs1 @ fs2)"
    by (simp add: queryItems_skip)
  show "queryString E (Struct (fs1 @ f # fs2)) = queryString E (Struct (fs1 @ fs2))"
    by (simp add: queryString_def eq)
  show "queryString E (PtrToStruct (fs1 @ f # fs2)) = queryString E (PtrToStruct (fs1 @ fs2))"
    by (simp add: queryString_def eq)
next
  assume t: "PkgPath f = '''' \<and> qs f \<noteq> ''-'' \<and> fvalue f = VBool True"
  have a: "addField E items f = Add (fieldKey E f) ''1'' items" for items
    using t by (simp add: addField_def Let_def)
  have m: "QueryEscape (fieldKey E f) @ ''=1'' \<in> set (EncodeParts (queryItems E (fs1 @ f # fs2)))"
    using queryItems_part [of E f "fieldKey E f" "''1''" fs1 fs2] a by (simp add: QueryEscape_1)
  show "QueryEscape (fieldKey E f) @ ''=1'' \<in> set (queryParts (queryString E (Struct (fs1 @ f # fs2))))"
    using queryParts_member [OF m] by (simp add: queryString_def)
  show "QueryEscape (fieldKey E f) @ ''=1''
          \<in> set (queryParts (queryString E (PtrToStruct (fs1 @ f # fs2))))"
    using queryParts_member [OF m] by (simp add: queryString_def)
  show "queryString E (Struct [f]) = QueryEscape (fieldKey E f) @ ''=1''"
    using queryString_single [of E f "fieldKey E f" "''1''"] a by (simp add: QueryEscape_1)
next
  assume t: "PkgPath f = '''' \<and> qs f \<noteq> ''-'' \<and> fvalue f = VInt 5"
  have a: "addField E items f = Add (fieldKey E f) ''5'' items" for items
    using t by (simp add: addField_def Let_def FormatInt_def digitChar_def)
  have m: "QueryEscape (fieldKey E f) @ ''=5'' \<in> set (EncodeParts (queryItems E (fs1 @ f # fs2)))"
    using queryItems_part [of E f "fieldKey E f" "''5''" fs1 fs2] a by (simp add: QueryEscape_5)
  show "QueryEscape (fieldKey E f) @ ''=5'' \<in> set (queryParts (queryString E (Struct (fs1 @ f # fs2))))"
    using queryParts_member [OF m] by (simp add: queryString_def)
  show "QueryEscape (fieldKey E f) @ ''=5''
          \<in> set (queryParts (queryString E (PtrToStruct (fs1 @ f # fs2))))"
    using queryParts_member [OF m] by (simp add: queryString_def)
  show "queryString E (Struct [f]) = QueryEscape (fieldKey E f) @ ''=5''"
    using queryString_single [of E f "fieldKey E f" "''5''"] a by (simp add: QueryEscape_5)
qed

theorem C8_field_encoding_witness:
  "queryString quiet_env (Struct ([quiet_field True] @ cpu_shares_field 0 # [])) = ''q=1''
   \<and> queryString quiet_env (Struct ([] @ quiet_field False # [cpu_shares_field 5])) = ''cpushares=5''
   \<and> queryString quiet_env (Struct [quiet_field True]) = ''q=1''
   \<and> queryString quiet_env (Struct [cpu_shares_field 5]) = ''cpushares=5''
   \<and> ''q=1'' \<in> set (queryParts (queryString quiet_env
          (Struct ([cpu_shares_field 5] @ quiet_field True # [cpu_shares_field 0]))))
   \<and> ''cpushares=5'' \<in> set (queryParts (queryString quiet_env
          (PtrToStruct ([quiet_field False, quiet_field True] @ cpu_shares_field 5 # []))))
   \<and> queryParts (queryString quiet_env (PtrToStruct (reflect_BuildImageOption stream_options)))
       = [''nocache=1'', ''rm=1'', ''t=demo+app'']"
proof -
  have k: "fieldKey quiet_env (quiet_field True) = ''q''"
    "fieldKey quiet_env (cpu_shares_field 5) = ''cpushares''"
    by (simp_all add: fieldKey_def quiet_field_def cpu_shares_field_def quiet_env_def asciiLower_def)
  have e: "QueryEscape ''q'' = ''q''" "QueryEscape ''cpushares'' = ''cpushares''"
    by (simp_all add: QueryEscape_def escapeByte_def shouldEscape_def)
  have p: "PkgPath (quiet_field t) = []" "qs (quiet_field t) = ''q''" "fvalue (quiet_field t) = VBool t"
    "PkgPath (cpu_shares_field n) = []" "qs (cpu_shares_field n) = []"
    "fvalue (cpu_shares_field n) = VInt n" for t n
    by (simp_all add: quiet_field_def cpu_shares_field_def)
  have a: "queryString quiet_env (Struct [quiet_field True]) = ''q=1''"
    using C8_field_encoding [of "quiet_field True" quiet_env "[]" "[]"]
    by (simp add: k e p)
  have b: "queryString quiet_env (Struct [cpu_shares_field 5]) = ''cpushares=5''"
    using C8_field_encoding [of "cpu_shares_field 5" quiet_env "[]" "[]"]
    by (simp add: k e p)
  have c: "queryString quiet_env (Struct ([quiet_field True] @ cpu_shares_field 0 # [])) = ''q=1''"
    using C8_field_encoding [of "cpu_shares_field 0" quiet_env "[quiet_field True]" "[]"] a
    by (simp add: p)
  have d: "queryString quiet_env (Struct ([] @ quiet_field False # [cpu_shares_field 5])) = ''cpushares=5''"
    using C8_field_encoding [of "quiet_field False" quiet_env "[]" "[cpu_shares_field 5]"] b
    by (simp add: p)
  have g: "''q=1'' \<in> set (queryParts (queryString quiet_env
          (Struct ([cpu_shares_field 5] @ quiet_field True # [cpu_shares_field 0]))))"
    using C8_field_encoding [of "quiet_field True" quiet_env "[cpu_shares_field 5]"
        "[cpu_shares_field 0]"]
    by (simp add: k e p)
  have h: "''cpushares=5'' \<in> set (queryParts (queryString quiet_env
          (PtrToStruct ([quiet_field False, quiet_field True] @ cpu_shares_field 5 # []))))"
    using C8_field_encoding [of "cpu_shares_field 5" quiet_env
        "[quiet_field False, quiet_field True]" "[]"]
    by (simp add: k e p)
  have f: "queryParts (queryString quiet_env (PtrToStruct (reflect_BuildImageOption stream_options)))
       = [''nocache=1'', ''rm=1'', ''t=demo+app'']"
    by (simp add: queryString_def queryItems_def reflect_BuildImageOption_def stream_options_def
        addField_def fieldKey_def Encode_def EncodeParts_def writePart_def QueryEscape_def
        escapeByte_def shouldEscape_def hexDigit_def)
  show ?thesis using a b c d g h f by simp
qed

text \<open>
  C8 as stated fails: an unexported boolean field set to true contributes nothing (the
  loop skips a field with a package path, line 270).
\<close>

theorem C8_unexported_field_counterexample:
  "queryString quiet_env (Struct [unexported_field]) = ''''"
  by (simp add: queryString_def queryItems_def addField_def unexported_field_def Encode_def
      EncodeParts_def)

section \<open>Properties of the authentication header\<close>

lemma headersWithAuth_pair:
  "headersWithAuth E [AuthConf a, AuthConfs cs] =
     Inr [''X-Registry-Auth'' \<mapsto> EncodeToString E (MarshalAuth E a),
          ''X-Registry-Config'' \<mapsto> EncodeToString E (MarshalAuths E cs)]"
  by (simp add: headersWithAuth_def jsonMarshal_def)




section \<open>Properties of BuildImage\<close>

text \<open>
  C6. A \<^verbatim>\<open>BuildImage\<close> call with a nil output stream returns \<^verbatim>\<open>ErrMissingOutputStream\<close>;
  otherwise, with both a context directory and an input stream, it returns
  \<^verbatim>\<open>ErrMultipleContexts\<close>, and with neither, \<^verbatim>\<open>ErrMissingContext\<close>. In all three cases the
  world is the one the call started in: nothing was dialled or sent, written or logged.
\<close>

theorem C6_configuration_errors:
  "(OutputStream opt = None \<longrightarrow>
      BuildImage E c opt w = (Some ErrMissingOutputStream, w))
   \<and> (OutputStream opt \<noteq> None \<and> ContextDir opt \<noteq> '''' \<and> InputStream opt \<noteq> None \<longrightarrow>
      BuildImage E c opt w = (Some ErrMultipleContexts, w))
   \<and> (OutputStream opt \<noteq> None \<and> ContextDir opt = '''' \<and> InputStream opt = None \<longrightarrow>
      BuildImage E c opt w = (Some ErrMissingContext, w))"
  by (auto simp add: BuildImage_def BuildImage_prepare_def headersWithAuth_pair)

theorem C6_configuration_errors_witness:
  "BuildImage quiet_env tcp_client (stream_options\<lparr>OutputStream := None\<rparr>) fresh_world
     = (Some ErrMissingOutputStream, fresh_world)
   \<and> BuildImage quiet_env tcp_client (stream_options\<lparr>ContextDir := ''/src/app''\<rparr>) fresh_world
     = (Some ErrMultipleContexts, fresh_world)
   \<and> BuildImage quiet_env tcp_client (stream_options\<lparr>InputStream := None\<rparr>) fresh_world
     = (Some ErrMissingContext, fresh_world)"
  using C6_configuration_errors [of "stream_options\<lparr>OutputStream := None\<rparr>" quiet_env tcp_client fresh_world]
    C6_configuration_errors [of "stream_options\<lparr>ContextDir := ''/src/app''\<rparr>" quiet_env tcp_client fresh_world]
    C6_configuration_errors [of "stream_options\<lparr>InputStream := None\<rparr>" quiet_env tcp_client fresh_world]
  by (simp add: stream_options_def)

text \<open>A response with a status outside the range, whose body is read to its end.\<close>

lemma stream_outside:
  assumes "stream_send E c method path headers input w = (Answered (Inr resp), w1)"
    and "StatusCode resp < 200 \<or> 400 \<le> StatusCode resp"
    and "ReadAll (Body resp) = Inr body"
  shows "stream E c method path setRawTerminal rawJSONStream headers input stdout stderr w =
           (Some (APIError (StatusCode resp) body), w1)"
  using assms by (auto simp add: stream_def stream_response_def newError_def)

text \<open>With the raw-terminal flag set, \<^verbatim>\<open>stream\<close> does not depend on the demultiplexer.\<close>

lemma requestHeader_stdCopy:
  "requestHeader (E\<lparr>stdCopy := sc\<rparr>) method headers = requestHeader E method headers"
  by (simp add: requestHeader_def cong: option.case_cong)

lemma stream_send_stdCopy:
  "stream_send (E\<lparr>stdCopy := sc\<rparr>) c method path headers input w =
   stream_send E c method path headers input w"
  by (simp add: stream_send_def getURL_def requestHeader_stdCopy Let_def cong: option.case_cong)

lemma stream_response_raw_terminal:
  "stream_response (E\<lparr>stdCopy := sc\<rparr>) result True rawJSONStream out err w =
   stream_response E result True rawJSONStream out err w"
  by (simp add: stream_response_def stream_decode_def split: sum.splits)

lemma stream_raw_terminal:
  "stream (E\<lparr>stdCopy := sc\<rparr>) c method path True rawJSONStream headers input stdout stderr w =
   stream E c method path True rawJSONStream headers input stdout stderr w"
  by (simp add: stream_def stream_send_stdCopy stream_response_raw_terminal
      split: prod.splits sent.splits)

lemma jsonMarshal_stdCopy: "jsonMarshal (E\<lparr>stdCopy := sc\<rparr>) v = jsonMarshal E v"
  by (simp add: jsonMarshal_def split: gvalue.splits)

lemma addField_stdCopy: "addField (E\<lparr>stdCopy := sc\<rparr>) = addField E"
  by (intro ext)
    (simp add: addField_def fieldKey_def jsonMarshal_stdCopy Let_def
      split: rvalue.splits option.splits marshalled.splits)

lemma queryString_stdCopy: "queryString (E\<lparr>stdCopy := sc\<rparr>) opts = queryString E opts"
  by (simp add: queryString_def queryItems_def addField_stdCopy split: options.splits)

lemma BuildImage_prepare_stdCopy: "BuildImage_prepare (E\<lparr>stdCopy := sc\<rparr>) opt = BuildImage_prepare E opt"
  by (simp add: BuildImage_prepare_def headersWithAuth_pair Let_def split: sum.splits)

lemma BuildImage_prepare_OutputStream:
  assumes "BuildImage_prepare E opt = Inr (headers, opt')"
  shows "OutputStream opt' = OutputStream opt"
  using assms
  by (auto simp add: BuildImage_prepare_def headersWithAuth_pair Let_def
      split: if_splits sum.splits)

text \<open>
  C10, as the code has it. The demultiplexer is never run on the \<^verbatim>\<open>BuildImage\<close> path: the
  call gives the same result whatever the demultiplexer is. A call that passes its checks
  is the call of \<^verbatim>\<open>stream\<close> with the raw-terminal flag true and a nil stderr. Consequently,
  when the round trip of such a call gives a response whose status is from 200 to 399 and
  whose content type is not \<^verbatim>\<open>application/json\<close>, the bytes of the body are written to
  the caller's output stream as they are, and the call returns the read error of the body,
  if any.
\<close>

theorem C10_raw_terminal:
  "(\<forall>sc. BuildImage (E\<lparr>stdCopy := sc\<rparr>) c opt w = BuildImage E c opt w)
   \<and> (BuildImage_prepare E opt = Inr (headers, opt') \<longrightarrow>
        BuildImage E c opt w =
          stream E c ''POST''
            (''/build?'' @ queryString E (PtrToStruct (reflect_BuildImageOption opt')))
            True (RawJSONStream opt') headers (InputStream opt') (OutputStream opt') None w)
   \<and> (BuildImage_prepare E opt = Inr (headers, opt')
        \<and> stream_send E c ''POST''
             (''/build?'' @ queryString E (PtrToStruct (reflect_BuildImageOption opt')))
             headers (InputStream opt') w = (Answered (Inr resp), w1)
        \<and> 200 \<le> StatusCode resp \<and> StatusCode resp < 400
        \<and> HeaderGet (Header resp) ''Content-Type'' \<noteq> ''application/json''
        \<and> OutputStream opt = Some out \<longrightarrow>
        BuildImage E c opt w =
          (map_option Foreign (failure (Body resp)), Fprint out (content (Body resp)) w1))"
proof (intro conjI impI allI)
  fix sc
  show "BuildImage (E\<lparr>stdCopy := sc\<rparr>) c opt w = BuildImage E c opt w"
    by (simp add: BuildImage_def BuildImage_prepare_stdCopy queryString_stdCopy
        stream_raw_terminal split: sum.splits)
next
  assume "BuildImage_prepare E opt = Inr (headers, opt')"
  then show "BuildImage E c opt w =
          stream E c ''POST''
            (''/build?'' @ queryString E (PtrToStruct (reflect_BuildImageOption opt')))
            True (RawJSONStream opt') headers (InputStream opt') (OutputStream opt') None w"
    by (simp add: BuildImage_def)
next
  assume h: "BuildImage_prepare E opt = Inr (headers, opt')
        \<and> stream_send E c ''POST''
             (''/build?'' @ queryString E (PtrToStruct (reflect_BuildImageOption opt')))
             headers (InputStream opt') w = (Answered (Inr resp), w1)
        \<and> 200 \<le> StatusCode resp \<and> StatusCode resp < 400
        \<and> HeaderGet (Header resp) ''Content-Type'' \<noteq> ''application/json''
        \<and> OutputStream opt = Some out"
  then have prep: "BuildImage_prepare E opt = Inr (headers, opt')"
    and sent: "stream_send E c ''POST''
             (''/build?'' @ queryString E (PtrToStruct (reflect_BuildImageOption opt')))
             headers (InputStream opt') w = (Answered (Inr resp), w1)"
    and ok: "200 \<le> StatusCode resp" "StatusCode resp < 400"
    and ct: "HeaderGet (Header resp) ''Content-Type'' \<noteq> ''application/json''"
    and out: "OutputStream opt = Some out"
    by simp_all
  have out': "OutputStream opt' = Some out"
    using BuildImage_prepare_OutputStream [OF prep] out by simp
  have "BuildImage E c opt w =
          stream E c ''POST''
            (''/build?'' @ queryString E (PtrToStruct (reflect_BuildImageOption opt')))
            True (RawJSONStream opt') headers (InputStream opt') (OutputStream opt') None w"
    using prep by (simp add: BuildImage_def)
  also have "\<dots> = stream_decode E resp True (RawJSONStream opt') out Discard w1"
    using stream_answered [OF sent ok] out' by simp
  also have "\<dots> = Copy out (Body resp) w1"
    using ct by (simp add: stream_decode_def)
  finally show "BuildImage E c opt w =
          (map_option Foreign (failure (Body resp)), Fprint out (content (Body resp)) w1)"
    by (simp add: Copy_def)
qed

lemma stream_options_prepare:
  "BuildImage_prepare E stream_options =
     Inr ([''X-Registry-Auth'' \<mapsto> EncodeToString E (MarshalAuth E (Auth stream_options)),
           ''X-Registry-Config'' \<mapsto> EncodeToString E (MarshalAuths E (AuthConfigs stream_options)),
           ''Content-Type'' \<mapsto> ''application/tar''], stream_options)"
  by (simp add: BuildImage_prepare_def headersWithAuth_pair stream_options_def)

theorem C10_raw_terminal_witness:
  "BuildImage (charset_env\<lparr>stdCopy := (\<lambda>r. ([(ToStderr, ''x'')], Some ErrMissingContext))\<rparr>)
      tcp_client stream_options fresh_world
     = BuildImage charset_env tcp_client stream_options fresh_world
   \<and> fst (BuildImage charset_env tcp_client stream_options fresh_world) = None
   \<and> written (snd (BuildImage charset_env tcp_client stream_options fresh_world)) 0 = ''hello''"
proof -
  let ?path = "''/build?'' @ queryString charset_env (PtrToStruct (reflect_BuildImageOption stream_options))"
  let ?headers = "[''X-Registry-Auth'' \<mapsto> EncodeToString charset_env (MarshalAuth charset_env (Auth stream_options)),
           ''X-Registry-Config'' \<mapsto> EncodeToString charset_env (MarshalAuths charset_env (AuthConfigs stream_options)),
           ''Content-Type'' \<mapsto> ''application/tar'']"
  let ?sent = "stream_send charset_env tcp_client ''POST'' ?path ?headers (InputStream stream_options) fresh_world"
  have "fst ?sent = Answered (Inr charset_response)"
    by (simp add: stream_send_def charset_env_def quiet_env_def tcp_client_def Let_def)
  then have s: "?sent = (Answered (Inr charset_response), snd ?sent)"
    by (metis prod.collapse)
  have w: "written (snd ?sent) 0 = ''''"
    by (simp add: stream_send_def charset_env_def quiet_env_def tcp_client_def
        fresh_world_def Let_def)
  have r: "StatusCode charset_response = 200"
    "HeaderGet (Header charset_response) ''Content-Type'' = ''application/json; charset=utf-8''"
    "Body charset_response = \<lparr>content = ''hello'', failure = None\<rparr>"
    by (simp_all add: charset_response_def HeaderGet_def)
  have o: "OutputStream stream_options = Some (Sink 0)"
    by (simp add: stream_options_def)
  note c10 = C10_raw_terminal [of charset_env tcp_client stream_options fresh_world ?headers
      stream_options charset_response "snd ?sent" "Sink 0"]
  have h: "BuildImage_prepare charset_env stream_options = Inr (?headers, stream_options)
        \<and> ?sent = (Answered (Inr charset_response), snd ?sent)
        \<and> 200 \<le> StatusCode charset_response \<and> StatusCode charset_response < 400
        \<and> HeaderGet (Header charset_response) ''Content-Type'' \<noteq> ''application/json''
        \<and> OutputStream stream_options = Some (Sink 0)"
    by (intro conjI) (rule stream_options_prepare, rule s, simp_all add: r o)
  have "BuildImage charset_env tcp_client stream_options fresh_world =
          (map_option Foreign (failure (Body charset_response)),
           Fprint (Sink 0) (content (Body charset_response)) (snd ?sent))"
    using h by (rule c10 [THEN conjunct2, THEN conjunct2, THEN mp])
  moreover have "BuildImage (charset_env\<lparr>stdCopy := (\<lambda>r. ([(ToStderr, ''x'')], Some ErrMissingContext))\<rparr>)
      tcp_client stream_options fresh_world
     = BuildImage charset_env tcp_client stream_options fresh_world"
    by (rule c10 [THEN conjunct1, THEN spec])
  ultimately show ?thesis using w by (simp add: r)
qed

text \<open>
  C10 as stated fails: a response with status 404 and content type \<^verbatim>\<open>text/plain\<close> is turned
  into an error of the API, and its body is not copied to the output stream.
\<close>

theorem C10_error_status_counterexample:
  "HeaderGet (Header not_found_response) ''Content-Type'' = ''text/plain''
   \<and> fst (BuildImage not_found_env tcp_client stream_options fresh_world)
       = Some (APIError 404 ''no such image'')
   \<and> written (snd (BuildImage not_found_env tcp_client stream_options fresh_world)) 0 = []"
proof -
  let ?path = "''/build?'' @ queryString not_found_env (PtrToStruct (reflect_BuildImageOption stream_options))"
  let ?headers = "[''X-Registry-Auth'' \<mapsto> EncodeToString not_found_env (MarshalAuth not_found_env (Auth stream_options)),
           ''X-Registry-Config'' \<mapsto> EncodeToString not_found_env (MarshalAuths not_found_env (AuthConfigs stream_options)),
           ''Content-Type'' \<mapsto> ''application/tar'']"
  let ?sent = "stream_send not_found_env tcp_client ''POST'' ?path ?headers (InputStream stream_options) fresh_world"
  have "fst ?sent = Answered (Inr not_found_response)"
    by (simp add: stream_send_def not_found_env_def quiet_env_def tcp_client_def Let_def)
  then have s: "?sent = (Answered (Inr not_found_response), snd ?sent)"
    by (metis prod.collapse)
  have w: "written (snd ?sent) 0 = []"
    by (simp add: stream_send_def not_found_env_def quiet_env_def tcp_client_def
        fresh_world_def Let_def)
  have r: "StatusCode not_found_response = 404"
    "HeaderGet (Header not_found_response) ''Content-Type'' = ''text/plain''"
    "ReadAll (Body not_found_response) = Inr ''no such image''"
    by (simp_all add: not_found_response_def HeaderGet_def ReadAll_def)
  have "BuildImage not_found_env tcp_client stream_options fresh_world =
          stream not_found_env tcp_client ''POST'' ?path True (RawJSONStream stream_options)
            ?headers (InputStream stream_options) (OutputStream stream_options) None fresh_world"
    by (simp add: BuildImage_def stream_options_prepare)
  also have "\<dots> = (Some (APIError 404 ''no such image''), snd ?sent)"
    using stream_outside [OF s] by (simp add: r)
  finally show ?thesis using w by (simp add: r)
qed

section \<open>Further properties\<close>

text \<open>
  A \<open>unix\<close> endpoint needs no port: when the string parses with the scheme \<open>unix\<close>, it
  resolves to the parsed URL, whatever its host is.
\<close>

theorem unix_endpoint_resolves:
  assumes "urlParse E ep = Some u" and "Scheme u = ''unix''"
  shows "parseEndpoint E ep = Inr u"
  using assms by (simp add: parseEndpoint_def checkEndpoint_def)

theorem unix_endpoint_resolves_witness:
  "parseEndpoint
     (quiet_env\<lparr>urlParse := (\<lambda>s. Some \<lparr>Scheme = ''unix'', Host = '''',
        Path = ''/var/run/docker.sock'', RawQuery = ''''\<rparr>)\<rparr>)
     ''unix:///var/run/docker.sock''
   = Inr \<lparr>Scheme = ''unix'', Host = '''', Path = ''/var/run/docker.sock'', RawQuery = ''''\<rparr>"
  using unix_endpoint_resolves [of
      "quiet_env\<lparr>urlParse := (\<lambda>s. Some \<lparr>Scheme = ''unix'', Host = '''',
        Path = ''/var/run/docker.sock'', RawQuery = ''''\<rparr>)\<rparr>"
      "''unix:///var/run/docker.sock''"
      "\<lparr>Scheme = ''unix'', Host = '''', Path = ''/var/run/docker.sock'', RawQuery = ''''\<rparr>"]
  by simp

text \<open>
  An endpoint of scheme \<open>http\<close> or \<open>https\<close> whose host carries a port resolves exactly when
  the port is a number greater than 0 and less than 65536.
\<close>

theorem port_range:
  assumes "urlParse E ep = Some u" and "Scheme u = ''http'' \<or> Scheme u = ''https''"
    and "SplitHostPort E (Host u) = Inr (host, port)"
  shows "parseEndpoint E ep =
           (if 0 < MustInt E port \<and> MustInt E port < 65536 then Inr u else Inl ErrInvalidEndpoint)"
  using assms by (auto simp add: parseEndpoint_def checkEndpoint_def Let_def)

theorem port_range_witness:
  "parseEndpoint
     (quiet_env\<lparr>urlParse := (\<lambda>s. Some \<lparr>Scheme = ''http'', Host = ''localhost:70000'',
          Path = '''', RawQuery = ''''\<rparr>),
        SplitHostPort := (\<lambda>h. Inr (''localhost'', ''70000'')),
        MustInt := (\<lambda>p. 70000)\<rparr>)
     ''http://localhost:70000''
   = Inl ErrInvalidEndpoint"
  using port_range [of
      "quiet_env\<lparr>urlParse := (\<lambda>s. Some \<lparr>Scheme = ''http'', Host = ''localhost:70000'',
          Path = '''', RawQuery = ''''\<rparr>),
        SplitHostPort := (\<lambda>h. Inr (''localhost'', ''70000'')),
        MustInt := (\<lambda>p. 70000)\<rparr>"
      "''http://localhost:70000''"
      "\<lparr>Scheme = ''http'', Host = ''localhost:70000'', Path = '''', RawQuery = ''''\<rparr>"
      "''localhost''" "''70000''"]
  by simp

text \<open>
  When the round trip fails, an error whose text contains \<^verbatim>\<open>connection refused\<close> is
  replaced by \<^verbatim>\<open>ErrConnectionRefused\<close>; any other error is returned as it is.
\<close>

theorem connection_refused:
  assumes "stream_send E c method path headers input w = (Answered (Inl err), w1)"
  shows "stream E c method path setRawTerminal rawJSONStream headers input stdout stderr w =
           (if Contains (errorText err) ''connection refused''
            then (Some ErrConnectionRefused, w1) else (Some err, w1))"
  using assms by (simp add: stream_def stream_response_def)

theorem connection_refused_witness:
  "fst (stream (quiet_env\<lparr>HTTPDo := (\<lambda>r. Inl (Foreign
            ''dial tcp 127.0.0.1:2375: connection refused''))\<rparr>)
          tcp_client ''POST'' ''/build'' True False Map.empty None (Some (Sink 0)) None fresh_world)
     = Some ErrConnectionRefused"
proof -
  let ?E = "quiet_env\<lparr>HTTPDo := (\<lambda>r. Inl (Foreign ''dial tcp 127.0.0.1:2375: connection refused''))\<rparr>"
  let ?sent = "stream_send ?E tcp_client ''POST'' ''/build'' Map.empty None fresh_world"
  have "fst ?sent = Answered (Inl (Foreign ''dial tcp 127.0.0.1:2375: connection refused''))"
    by (simp add: stream_send_def quiet_env_def tcp_client_def Let_def)
  then have s: "?sent =
      (Answered (Inl (Foreign ''dial tcp 127.0.0.1:2375: connection refused'')), snd ?sent)"
    by (metis prod.collapse)
  show ?thesis
    using connection_refused [OF s, of True False "Some (Sink 0)" None]
    by (simp add: prefix_def)
qed

text \<open>
  With the content type \<^verbatim>\<open>application/json\<close> and the raw JSON stream asked for, the body
  is copied to the stdout writer as it is and no event is decoded.
\<close>

theorem raw_json_passthrough:
  assumes "stream_send E c method path headers input w = (Answered (Inr resp), w1)"
    and "200 \<le> StatusCode resp" and "StatusCode resp < 400"
    and "HeaderGet (Header resp) ''Content-Type'' = ''application/json''"
  shows "stream E c method path setRawTerminal True headers input (Some out) stderr w =
           (map_option Foreign (failure (Body resp)), Fprint out (content (Body resp)) w1)"
  using stream_answered [OF assms(1-3)] assms(4) by (simp add: stream_decode_def Copy_def)

theorem raw_json_passthrough_witness:
  "written (snd (stream three_events_env tcp_client ''POST'' ''/build'' True True Map.empty None
          (Some (Sink 0)) None fresh_world)) 0 = content three_events_body"
proof -
  have s: "stream_send three_events_env tcp_client ''POST'' ''/build'' Map.empty None fresh_world =
     (Answered (Inr three_events_response),
      snd (stream_send three_events_env tcp_client ''POST'' ''/build'' Map.empty None fresh_world))"
    using three_events_sent by (metis prod.collapse)
  have w: "written (snd (stream_send three_events_env tcp_client ''POST'' ''/build'' Map.empty None
              fresh_world)) 0 = ''''"
    by (simp add: stream_send_def three_events_env_def quiet_env_def tcp_client_def
        fresh_world_def Let_def)
  have r: "StatusCode three_events_response = 200"
    "HeaderGet (Header three_events_response) ''Content-Type'' = ''application/json''"
    "Body three_events_response = three_events_body"
    by (simp_all add: three_events_response_def HeaderGet_def)
  show ?thesis
    using raw_json_passthrough [OF s, of True "Sink 0" None] w by (simp add: r)
qed

text \<open>
  A malformed JSON value in the middle of the stream ends the decoding with the error of
  the decoder; what the events before it wrote stays written.
\<close>

theorem malformed_event:
  assumes "stream_events before out w = (None, w1)"
  shows "stream_events (before @ Malformed e # after) out w = (Some (Foreign e), w1)"
  using assms by (simp add: stream_events_append)

theorem malformed_event_witness:
  "stream_events
     ([Message \<lparr>Status = '''', Progress = '''', Error = '''', Stream = ''a''\<rparr>]
      @ Malformed ''invalid character'' # [])
     (Sink 0) fresh_world
   = (Some (Foreign ''invalid character''), fresh_world\<lparr>written := (\<lambda>k. '''')(0 := ''a'')\<rparr>)"
  using malformed_event [of "[Message \<lparr>Status = '''', Progress = '''', Error = '''', Stream = ''a''\<rparr>]"
      "Sink 0" fresh_world "fresh_world\<lparr>written := (\<lambda>k. '''')(0 := ''a'')\<rparr>"
      "''invalid character''" "[]"]
  by (simp add: stream_event_def fresh_world_def)

end
